theory Spec2Isabelle
  imports Complex_Main
begin

section \<open>Numbers\<close>

text \<open>
  The program computes on JavaScript numbers. A finite number is modelled as an exact
  \<^typ>\<open>real\<close>: binary rounding of the IEEE doubles is not part of the model. Inputs and
  configuration values are finite numbers. Where the source divides by a value that can
  be zero (the adaptive allocation strategy), the result is a \<open>number\<close>, which adds
  the special values a JavaScript division produces there.
\<close>

definition Math_round :: "real \<Rightarrow> real" where
  \<comment> \<open>\<open>Math.round\<close>: the nearest integer, a tie going up.\<close>
  "Math_round x = of_int \<lfloor>x + 1 / 2\<rfloor>"

definition Math_min :: "real \<Rightarrow> real \<Rightarrow> real" where
  "Math_min a b = min a b"

definition Math_max :: "real \<Rightarrow> real \<Rightarrow> real" where
  "Math_max a b = max a b"

section \<open>Ice health engine (services/ice-health/engine.ts), data\<close>

record HealthMetricsInput =
  buybackCountLast24h :: real
  buybackVolumeSolLast24h :: real
  recentSellPressureSol :: real
  currentLiquidity :: real
  volatilityPercent24h :: real
  lastBuybackTimestampSeconds :: real
  currentTimestampSeconds :: real

record IceHealthMetrics =
  buybackFrequency :: real
  buybackCoverage :: real
  liquidityDepth :: real
  volatilityPenalty :: real
  timeDecay :: real

text \<open>\<open>ProtocolConfig.iceHealthWeights\<close>; the fields carry the prefix \<open>weight\<close>
  because the metrics record owns the bare names.\<close>

record IceHealthWeights =
  weightBuybackFrequency :: real
  weightBuybackCoverage :: real
  weightLiquidityDepth :: real
  weightVolatilityPenalty :: real
  weightTimeDecay :: real

datatype HealthStatus = ALIVE | MELTING | DEAD

record IceHealthState =
  timestamp :: int
  health :: real
  metrics :: IceHealthMetrics
  status :: HealthStatus
  lastActionTime :: real
  healthEpochNumber :: nat

section \<open>Configuration (types, config/manager.ts)\<close>

datatype ExecutorMode = DryRun | Live

record ExecutorConfig =
  mode :: ExecutorMode
  epochIntervalSeconds :: real
  maxBudgetPerEpochSol :: real
  minIntervalSeconds :: real
  maxConsecutiveFailures :: real
  minBalanceToOperateSol :: real
  driftToleranceBps :: real

record AllocationConfig =
  buybackPct :: real
  lpPct :: real
  burnPct :: real
  coolingPct :: real

datatype AllocationMode = Adaptive | Fixed

text \<open>\<open>ProtocolConfig\<close>, without the network, token, key, fee-source, logging and
  simulation settings, which the functions modelled here do not read.\<close>

record ProtocolConfig =
  executor :: ExecutorConfig
  maxSlippageBps :: real
  maxPriceImpactBps :: real
  iceHealthThreshold :: real
  iceHealthWeights :: IceHealthWeights
  allocationMode :: AllocationMode
  allocationConfig :: AllocationConfig

text \<open>The defaults of \<open>ConfigManager.load\<close>.\<close>

definition defaultWeights :: IceHealthWeights where
  "defaultWeights =
     \<lparr> weightBuybackFrequency = 0.25, weightBuybackCoverage = 0.25,
       weightLiquidityDepth = 0.25, weightVolatilityPenalty = 0.15,
       weightTimeDecay = 0.1 \<rparr>"

definition defaultExecutorConfig :: ExecutorConfig where
  "defaultExecutorConfig =
     \<lparr> mode = DryRun, epochIntervalSeconds = 1800, maxBudgetPerEpochSol = 1,
       minIntervalSeconds = 300, maxConsecutiveFailures = 5,
       minBalanceToOperateSol = 0.5, driftToleranceBps = 50 \<rparr>"

definition defaultAllocationConfig :: AllocationConfig where
  "defaultAllocationConfig = \<lparr> buybackPct = 70, lpPct = 20, burnPct = 5, coolingPct = 5 \<rparr>"

definition defaultConfig :: ProtocolConfig where
  "defaultConfig =
     \<lparr> executor = defaultExecutorConfig, maxSlippageBps = 500, maxPriceImpactBps = 1000,
       iceHealthThreshold = 50, iceHealthWeights = defaultWeights,
       allocationMode = Adaptive, allocationConfig = defaultAllocationConfig \<rparr>"

text \<open>\<open>validateConfig\<close> accepts a configuration when the weights sum to 1 within
  0.001, the four percentages sum to 100 and the threshold lies in 0..100; otherwise it
  throws.\<close>

definition validateConfig :: "ProtocolConfig \<Rightarrow> bool" where
  "validateConfig config =
     (let weights = iceHealthWeights config;
          totalWeight =
            weightBuybackFrequency weights + weightBuybackCoverage weights +
            weightLiquidityDepth weights + weightVolatilityPenalty weights +
            weightTimeDecay weights;
          alloc = allocationConfig config;
          totalAlloc = buybackPct alloc + lpPct alloc + burnPct alloc + coolingPct alloc
      in if \<bar>totalWeight - 1\<bar> > 0.001 then False
         else if totalAlloc \<noteq> 100 then False
         else if iceHealthThreshold config < 0 \<or> iceHealthThreshold config > 100 then False
         else True)"

section \<open>Ice health engine, functions\<close>

definition computeMetrics :: "HealthMetricsInput \<Rightarrow> IceHealthMetrics" where
  "computeMetrics input =
     (let buybackFrequencyScore =
            Math_min 100 ((buybackCountLast24h input / 4) * 100);
          estimatedBuybackCoverage =
            (if recentSellPressureSol input > 0
             then (buybackVolumeSolLast24h input / recentSellPressureSol input) * 100
             else 100);
          buybackCoverageScore = Math_min 100 estimatedBuybackCoverage;
          liquidityDepthScore = Math_min 100 ((currentLiquidity input / 50) * 100);
          volatilityPenaltyScore = Math_min 100 (volatilityPercent24h input);
          secondsSinceLastAction =
            currentTimestampSeconds input - lastBuybackTimestampSeconds input;
          hoursSinceLastAction = secondsSinceLastAction / 3600;
          timeDecayScore =
            Math_min 100 (Math_max 0 ((hoursSinceLastAction / 72) * 100))
      in \<lparr> buybackFrequency = Math_round (buybackFrequencyScore * 100) / 100,
           buybackCoverage = Math_round (buybackCoverageScore * 100) / 100,
           liquidityDepth = Math_round (liquidityDepthScore * 100) / 100,
           volatilityPenalty = Math_round (volatilityPenaltyScore * 100) / 100,
           timeDecay = Math_round (timeDecayScore * 100) / 100 \<rparr>)"

definition computeHealthScore :: "ProtocolConfig \<Rightarrow> IceHealthMetrics \<Rightarrow> real" where
  "computeHealthScore config m =
     (let weights = iceHealthWeights config;
          score =
            weightBuybackFrequency weights * buybackFrequency m +
            weightBuybackCoverage weights * buybackCoverage m +
            weightLiquidityDepth weights * liquidityDepth m -
            weightVolatilityPenalty weights * volatilityPenalty m -
            weightTimeDecay weights * timeDecay m
      in Math_max 0 (Math_min 100 score))"

definition computeStatus :: "ProtocolConfig \<Rightarrow> real \<Rightarrow> HealthStatus" where
  "computeStatus config h =
     (let threshold = iceHealthThreshold config
      in if h \<ge> threshold then ALIVE else if h > 0 then MELTING else DEAD)"

text \<open>\<open>computeHealth\<close>; \<open>nowSeconds\<close> is the value of
  \<open>Math.floor(Date.now() / 1000)\<close> read at the call.\<close>

definition computeHealth ::
  "ProtocolConfig \<Rightarrow> int \<Rightarrow> HealthMetricsInput \<Rightarrow> nat \<Rightarrow> IceHealthState" where
  "computeHealth config nowSeconds input epochNo =
     (let m = computeMetrics input;
          h = computeHealthScore config m;
          st = computeStatus config h
      in \<lparr> timestamp = nowSeconds,
           health = Math_round (h * 100) / 100,
           metrics = m,
           status = st,
           lastActionTime = lastBuybackTimestampSeconds input,
           healthEpochNumber = epochNo \<rparr>)"

section \<open>Numbers with the special values of a division\<close>

text \<open>
  A JavaScript division never throws: \<open>x / 0\<close> is \<open>Infinity\<close>, \<open>-Infinity\<close> or
  \<open>NaN\<close>, and the special values propagate through the arithmetic that follows.
  \<open>number\<close> is a finite exact value or one of the three. Every zero is the positive
  zero (the only zero divisor of the program is \<open>100 - x\<close> at \<open>x = 100\<close>, which is
  \<open>+0\<close>).
\<close>

datatype number = Num real | PosInf | NegInf | NaN

definition signedInf :: "bool \<Rightarrow> number" where
  "signedInf positive = (if positive then PosInf else NegInf)"

definition jsMul :: "number \<Rightarrow> number \<Rightarrow> number" where
  "jsMul x y =
     (case x of
        NaN \<Rightarrow> NaN
      | Num a \<Rightarrow>
          (case y of
             NaN \<Rightarrow> NaN
           | Num b \<Rightarrow> Num (a * b)
           | PosInf \<Rightarrow> if a = 0 then NaN else signedInf (a > 0)
           | NegInf \<Rightarrow> if a = 0 then NaN else signedInf (a < 0))
      | PosInf \<Rightarrow>
          (case y of
             NaN \<Rightarrow> NaN
           | Num b \<Rightarrow> if b = 0 then NaN else signedInf (b > 0)
           | PosInf \<Rightarrow> PosInf
           | NegInf \<Rightarrow> NegInf)
      | NegInf \<Rightarrow>
          (case y of
             NaN \<Rightarrow> NaN
           | Num b \<Rightarrow> if b = 0 then NaN else signedInf (b < 0)
           | PosInf \<Rightarrow> NegInf
           | NegInf \<Rightarrow> PosInf))"

definition jsDiv :: "number \<Rightarrow> number \<Rightarrow> number" where
  "jsDiv x y =
     (case x of
        NaN \<Rightarrow> NaN
      | Num a \<Rightarrow>
          (case y of
             NaN \<Rightarrow> NaN
           | Num b \<Rightarrow>
               if b \<noteq> 0 then Num (a / b)
               else if a = 0 then NaN
               else signedInf (a > 0)
           | PosInf \<Rightarrow> Num 0
           | NegInf \<Rightarrow> Num 0)
      | PosInf \<Rightarrow>
          (case y of
             Num b \<Rightarrow> signedInf (b \<ge> 0)
           | _ \<Rightarrow> NaN)
      | NegInf \<Rightarrow>
          (case y of
             Num b \<Rightarrow> signedInf (b < 0)
           | _ \<Rightarrow> NaN))"

definition jsGreaterZero :: "number \<Rightarrow> bool" where
  \<comment> \<open>\<open>x > 0\<close>; a comparison with \<open>NaN\<close> is false.\<close>
  "jsGreaterZero x =
     (case x of Num a \<Rightarrow> a > 0 | PosInf \<Rightarrow> True | NegInf \<Rightarrow> False | NaN \<Rightarrow> False)"

section \<open>Allocation strategies (services/executor/index.ts)\<close>

datatype ActionType = Buyback | AddLp | Burn | CoolingEvent

datatype ActionStatus = Pending | Executed | Failed

text \<open>The text of an error: a fixed or collaborator-supplied message, or the
  price-impact template with the two numbers it interpolates.\<close>

datatype errorMessage = Message string | PriceImpactTooHigh real real

record AllocationAction =
  actionType :: ActionType
  amountSol :: number
  actionSignature :: "string option"
  actionStatus :: ActionStatus
  actionError :: "errorMessage option"

record Allocations =
  buyback :: number
  lp :: number
  burn :: number
  cooling :: number

record EpochAllocation =
  totalFeesToAllocate :: real
  allocations :: Allocations
  actions :: "AllocationAction list"

definition FixedAllocationStrategy_allocate ::
  "real \<Rightarrow> IceHealthState \<Rightarrow> AllocationConfig \<Rightarrow> EpochAllocation" where
  "FixedAllocationStrategy_allocate feeAmount iceHealth config =
     \<lparr> totalFeesToAllocate = feeAmount,
       allocations =
         \<lparr> buyback = jsDiv (Num (feeAmount * buybackPct config)) (Num 100),
           lp = jsDiv (Num (feeAmount * lpPct config)) (Num 100),
           burn = jsDiv (Num (feeAmount * burnPct config)) (Num 100),
           cooling = jsDiv (Num (feeAmount * coolingPct config)) (Num 100) \<rparr>,
       actions = [] \<rparr>"

definition AdaptiveAllocationStrategy_allocate ::
  "real \<Rightarrow> IceHealthState \<Rightarrow> AllocationConfig \<Rightarrow> EpochAllocation" where
  "AdaptiveAllocationStrategy_allocate feeAmount iceHealth baseConfig =
     (let h = health iceHealth;
          buybackPct' =
            (if h < 30 then 85
             else if h < 50 then 80
             else if h < 70 then buybackPct baseConfig
             else 50);
          remaining = 100 - buybackPct';
          lpPct' =
            jsMul (jsDiv (Num (lpPct baseConfig)) (Num (100 - buybackPct baseConfig)))
              (Num remaining);
          burnPct' =
            jsMul (jsDiv (Num (burnPct baseConfig)) (Num (100 - buybackPct baseConfig)))
              (Num remaining);
          coolingPct' =
            jsMul (jsDiv (Num (coolingPct baseConfig)) (Num (100 - buybackPct baseConfig)))
              (Num remaining)
      in \<lparr> totalFeesToAllocate = feeAmount,
           allocations =
             \<lparr> buyback = jsDiv (Num (feeAmount * buybackPct')) (Num 100),
               lp = jsDiv (jsMul (Num feeAmount) lpPct') (Num 100),
               burn = jsDiv (jsMul (Num feeAmount) burnPct') (Num 100),
               cooling = jsDiv (jsMul (Num feeAmount) coolingPct') (Num 100) \<rparr>,
           actions = [] \<rparr>)"

text \<open>The strategy the \<open>Executor\<close> constructor selects.\<close>

definition allocationStrategy ::
  "ProtocolConfig \<Rightarrow> real \<Rightarrow> IceHealthState \<Rightarrow> AllocationConfig \<Rightarrow> EpochAllocation" where
  "allocationStrategy config =
     (if allocationMode config = Adaptive then AdaptiveAllocationStrategy_allocate
      else FixedAllocationStrategy_allocate)"

section \<open>Executor (services/executor/index.ts)\<close>

record ExecutorState =
  lastExecutionTime :: int
  consecutiveFailures :: nat
  epochNumber :: nat
  circuitBreakerActive :: bool

datatype FeeSourceTag = WalletWatcher | Api | Mock

datatype ConfirmationStatus = Processed | Confirmed | Finalized

record FeeEvent =
  feeSignature :: string
  feeTimestamp :: int
  feeAmountSol :: real
  feeSource :: FeeSourceTag
  confirmationStatus :: ConfirmationStatus
  processed :: bool

record FeeTracker =
  totalFeesCollected :: real
  lastProcessedSignature :: string
  lastProcessedTimestamp :: int
  events :: "FeeEvent list"

text \<open>The mutable part of an \<open>Executor\<close> object: its own \<open>executorState\<close> and the
  fee tracker it shares with the orchestrator. The configuration is immutable and passed
  beside it.\<close>

record Executor =
  executorState :: ExecutorState
  feeTracker :: FeeTracker

record Quote =
  quoteInputAmount :: real
  quoteOutputAmount :: real
  priceImpactBps :: real
  feeBps :: real
  routePath :: string

record SwapResult =
  swapSignature :: string
  swapInputAmount :: real
  swapOutputAmount :: real
  actualPriceImpactBps :: real

text \<open>
  What the collaborators answer during one call of \<open>executeEpoch\<close>: the clock, the
  balance query of the connection (lamports, or a rejection with its message) and the
  swap engine's \<open>dryRun\<close> and \<open>swap\<close>, as functions of the amount and the slippage
  they are called with (the two mints are constants). The logger's methods return
  normally and their output is not part of the state.
\<close>

record Env =
  dateNowSeconds :: int
  getBalance :: "errorMessage + real"
  dryRun :: "number \<Rightarrow> real \<Rightarrow> errorMessage + Quote"
  swap :: "number \<Rightarrow> real \<Rightarrow> errorMessage + SwapResult"

definition initialExecutorState :: ExecutorState where
  "initialExecutorState =
     \<lparr> lastExecutionTime = 0, consecutiveFailures = 0, epochNumber = 0,
       circuitBreakerActive = False \<rparr>"

definition incrementFailureCount :: "ProtocolConfig \<Rightarrow> ExecutorState \<Rightarrow> ExecutorState" where
  "incrementFailureCount config st =
     (let st1 = st\<lparr>consecutiveFailures := consecutiveFailures st + 1\<rparr>
      in if real (consecutiveFailures st1) \<ge> maxConsecutiveFailures (executor config)
         then st1\<lparr>circuitBreakerActive := True\<rparr>
         else st1)"

definition resetCircuitBreaker :: "ExecutorState \<Rightarrow> ExecutorState" where
  "resetCircuitBreaker st = st\<lparr>circuitBreakerActive := False, consecutiveFailures := 0\<rparr>"

definition getState :: "Executor \<Rightarrow> ExecutorState" where
  "getState ex = executorState ex"

definition checkBotBalance :: "Env \<Rightarrow> real" where
  "checkBotBalance env =
     (case getBalance env of
        Inr balance \<Rightarrow> balance / 1000000000
      | Inl error \<Rightarrow> 0)"

text \<open>The action record each \<open>execute...\<close> method starts from:
  \<open>{ type, amountSol, status: "pending" }\<close>.\<close>

definition pendingAction :: "ActionType \<Rightarrow> number \<Rightarrow> AllocationAction" where
  "pendingAction ty amount =
     \<lparr> actionType = ty, amountSol = amount, actionSignature = None,
       actionStatus = Pending, actionError = None \<rparr>"

text \<open>The \<open>try\<close> block of \<open>executeBuyback\<close>: \<open>Inl\<close> is the exception it raises
  (a rejection of the swap engine, or the price-impact error it throws itself).\<close>

definition executeBuyback_try ::
  "ProtocolConfig \<Rightarrow> Env \<Rightarrow> AllocationAction \<Rightarrow> errorMessage + AllocationAction" where
  "executeBuyback_try config env action =
     (case dryRun env (amountSol action) (maxSlippageBps config) of
        Inl error \<Rightarrow> Inl error
      | Inr quote \<Rightarrow>
          if priceImpactBps quote > maxPriceImpactBps config
          then Inl (PriceImpactTooHigh (priceImpactBps quote) (maxPriceImpactBps config))
          else
            (case swap env (amountSol action) (maxSlippageBps config) of
               Inl error \<Rightarrow> Inl error
             | Inr result \<Rightarrow>
                 Inr (action\<lparr>actionStatus := Executed,
                        actionSignature := Some (swapSignature result)\<rparr>)))"

definition executeBuyback :: "ProtocolConfig \<Rightarrow> Env \<Rightarrow> number \<Rightarrow> AllocationAction" where
  "executeBuyback config env solAmount =
     (let action = pendingAction Buyback solAmount
      in case executeBuyback_try config env action of
           Inr done \<Rightarrow> done
         | Inl error \<Rightarrow> action\<lparr>actionStatus := Failed, actionError := Some error\<rparr>)"

definition executeAddLP :: "number \<Rightarrow> AllocationAction" where
  "executeAddLP solAmount =
     (let action = pendingAction AddLp solAmount
      in action\<lparr>actionStatus := Failed,
           actionError := Some (Message ''Not yet implemented'')\<rparr>)"

definition executeBurn :: "number \<Rightarrow> AllocationAction" where
  "executeBurn iceAmount =
     (let action = pendingAction Burn iceAmount
      in action\<lparr>actionStatus := Failed,
           actionError := Some (Message ''Not yet implemented'')\<rparr>)"

definition executeCooling :: "number \<Rightarrow> AllocationAction" where
  "executeCooling solAmount =
     (let action = pendingAction CoolingEvent solAmount
      in action\<lparr>actionStatus := Executed\<rparr>)"

definition executeActions :: "ProtocolConfig \<Rightarrow> Env \<Rightarrow> EpochAllocation \<Rightarrow> EpochAllocation" where
  "executeActions config env allocation =
     (let a = allocations allocation;
          actions1 = (if jsGreaterZero (buyback a) then [executeBuyback config env (buyback a)] else []);
          actions2 = (if jsGreaterZero (lp a) then actions1 @ [executeAddLP (lp a)] else actions1);
          actions3 = (if jsGreaterZero (burn a) then actions2 @ [executeBurn (burn a)] else actions2);
          actions4 = (if jsGreaterZero (cooling a) then actions3 @ [executeCooling (cooling a)] else actions3)
      in allocation\<lparr>actions := actions4\<rparr>)"

text \<open>
  The \<open>try\<close> block of \<open>executeEpoch\<close>, entered after the epoch counter was
  incremented. \<open>Inr\<close> is a \<open>return\<close> with the value returned (\<open>None\<close> is
  \<open>null\<close>) and the state left behind; \<open>Inl\<close> is an exception reaching the
  \<open>catch\<close> clause, with the state at the throw.
\<close>

definition executeEpoch_try ::
  "ProtocolConfig \<Rightarrow> Env \<Rightarrow> IceHealthState \<Rightarrow> Executor \<Rightarrow>
     (errorMessage \<times> Executor) + (EpochAllocation option \<times> Executor)" where
  "executeEpoch_try config env iceHealth ex =
     (if circuitBreakerActive (executorState ex) then Inr (None, ex)
      else
        let now = dateNowSeconds env
        in if real_of_int (now - lastExecutionTime (executorState ex))
              < minIntervalSeconds (executor config)
           then Inr (None, ex)
           else
             let botBalance = checkBotBalance env
             in if botBalance < minBalanceToOperateSol (executor config)
                then Inr (None,
                       ex\<lparr>executorState := incrementFailureCount config (executorState ex)\<rparr>)
                else
                  let feesToProcess = totalFeesCollected (feeTracker ex)
                  in if feesToProcess < 0.01 then Inr (None, ex)
                     else
                       let allocation =
                             allocationStrategy config feesToProcess iceHealth
                               (allocationConfig config);
                           allocation' =
                             (if mode (executor config) = Live
                              then executeActions config env allocation
                              else allocation)
                       in Inr (Some allocation',
                            ex\<lparr>executorState :=
                                 (executorState ex)\<lparr>lastExecutionTime := now,
                                    consecutiveFailures := 0\<rparr>,
                               feeTracker :=
                                 (feeTracker ex)\<lparr>totalFeesCollected := 0\<rparr>\<rparr>))"

text \<open>The first statement of \<open>executeEpoch\<close>, before the \<open>try\<close>:
  \<open>this.executorState.epochNumber++\<close>.\<close>

definition incrementEpochNumber :: "Executor \<Rightarrow> Executor" where
  "incrementEpochNumber ex =
     ex\<lparr>executorState :=
          (executorState ex)\<lparr>epochNumber := epochNumber (executorState ex) + 1\<rparr>\<rparr>"

text \<open>The \<open>catch\<close> clause of \<open>executeEpoch\<close>, for the exception caught and the
  state at the throw: it logs, counts a failure and returns \<open>null\<close>.\<close>

definition executeEpoch_catch ::
  "ProtocolConfig \<Rightarrow> errorMessage \<Rightarrow> Executor \<Rightarrow> EpochAllocation option \<times> Executor" where
  "executeEpoch_catch config error ex =
     (None, ex\<lparr>executorState := incrementFailureCount config (executorState ex)\<rparr>)"

definition executeEpoch ::
  "ProtocolConfig \<Rightarrow> Env \<Rightarrow> IceHealthState \<Rightarrow> Executor \<Rightarrow> EpochAllocation option \<times> Executor" where
  "executeEpoch config env iceHealth ex0 =
     (let ex = incrementEpochNumber ex0
      in case executeEpoch_try config env iceHealth ex of
           Inr returned \<Rightarrow> returned
         | Inl (error, ex') \<Rightarrow> executeEpoch_catch config error ex')"

text \<open>
  The operations that reach the state of an executor between its construction and any
  later moment: a call of \<open>executeEpoch\<close> (with the answers of the collaborators and
  the health state it is given), a call of \<open>resetCircuitBreaker\<close>, and the
  orchestrator or a fee source adding an amount to the shared fee total.
  \<open>runCalls\<close> is the state after a sequence of them.
\<close>

datatype ExecutorCall =
  ExecuteEpoch Env IceHealthState
| ResetCircuitBreaker
| CollectFees real

fun applyCall :: "ProtocolConfig \<Rightarrow> ExecutorCall \<Rightarrow> Executor \<Rightarrow> Executor" where
  "applyCall config (ExecuteEpoch env iceHealth) ex = snd (executeEpoch config env iceHealth ex)"
| "applyCall config ResetCircuitBreaker ex =
     ex\<lparr>executorState := resetCircuitBreaker (executorState ex)\<rparr>"
| "applyCall config (CollectFees amount) ex =
     ex\<lparr>feeTracker :=
          (feeTracker ex)\<lparr>totalFeesCollected := totalFeesCollected (feeTracker ex) + amount\<rparr>\<rparr>"

fun runCalls :: "ProtocolConfig \<Rightarrow> ExecutorCall list \<Rightarrow> Executor \<Rightarrow> Executor" where
  "runCalls config [] ex = ex"
| "runCalls config (call # calls) ex = runCalls config calls (applyCall config call ex)"

fun isReset :: "ExecutorCall \<Rightarrow> bool" where
  "isReset ResetCircuitBreaker = True"
| "isReset _ = False"

fun isEpoch :: "ExecutorCall \<Rightarrow> bool" where
  "isEpoch (ExecuteEpoch env iceHealth) = True"
| "isEpoch _ = False"

definition newExecutor :: Executor where
  \<comment> \<open>The executor and the fee tracker as \<open>IceProtocol\<close>'s constructor creates them.\<close>
  "newExecutor =
     \<lparr> executorState = initialExecutorState,
       feeTracker =
         \<lparr> totalFeesCollected = 0, lastProcessedSignature = [],
           lastProcessedTimestamp = 0, events = [] \<rparr> \<rparr>"

section \<open>The specification's reading of the health computation\<close>

text \<open>
  The definitions of this section follow the specification's words, not the source:
  the five sub-scores as its formulas give them, unrounded, the composite computed from
  them, and rounding to two decimal places as a separate, reporting step. They are what
  the source's \<open>computeHealth\<close> is compared with.
\<close>

definition round2dp :: "real \<Rightarrow> real" where
  "round2dp x = Math_round (x * 100) / 100"

definition specClamp :: "real \<Rightarrow> real \<Rightarrow> real \<Rightarrow> real" where
  "specClamp x lo hi = max lo (min hi x)"

definition specSubScores :: "HealthMetricsInput \<Rightarrow> IceHealthMetrics" where
  "specSubScores input =
     \<lparr> buybackFrequency = min 100 (buybackCountLast24h input / 4 * 100),
       buybackCoverage =
         (if recentSellPressureSol input = 0 then 100
          else min 100 (buybackVolumeSolLast24h input / recentSellPressureSol input * 100)),
       liquidityDepth = min 100 (currentLiquidity input / 50 * 100),
       volatilityPenalty = min 100 (volatilityPercent24h input),
       timeDecay =
         specClamp
           ((currentTimestampSeconds input - lastBuybackTimestampSeconds input) / 3600 / 72 * 100)
           0 100 \<rparr>"

definition specWeightedSum :: "IceHealthWeights \<Rightarrow> IceHealthMetrics \<Rightarrow> real" where
  "specWeightedSum w m =
     weightBuybackFrequency w * buybackFrequency m +
     weightBuybackCoverage w * buybackCoverage m +
     weightLiquidityDepth w * liquidityDepth m -
     weightVolatilityPenalty w * volatilityPenalty m -
     weightTimeDecay w * timeDecay m"

definition specComposite :: "ProtocolConfig \<Rightarrow> HealthMetricsInput \<Rightarrow> real" where
  "specComposite config input =
     specClamp (specWeightedSum (iceHealthWeights config) (specSubScores input)) 0 100"

definition roundMetrics :: "IceHealthMetrics \<Rightarrow> IceHealthMetrics" where
  "roundMetrics m =
     \<lparr> buybackFrequency = round2dp (buybackFrequency m),
       buybackCoverage = round2dp (buybackCoverage m),
       liquidityDepth = round2dp (liquidityDepth m),
       volatilityPenalty = round2dp (volatilityPenalty m),
       timeDecay = round2dp (timeDecay m) \<rparr>"

definition sumAbsWeights :: "IceHealthWeights \<Rightarrow> real" where
  "sumAbsWeights w =
     \<bar>weightBuybackFrequency w\<bar> + \<bar>weightBuybackCoverage w\<bar> + \<bar>weightLiquidityDepth w\<bar> +
     \<bar>weightVolatilityPenalty w\<bar> + \<bar>weightTimeDecay w\<bar>"

section \<open>The total of an allocation\<close>

definition jsAdd :: "number \<Rightarrow> number \<Rightarrow> number" where
  "jsAdd x y =
     (case x of
        NaN \<Rightarrow> NaN
      | Num a \<Rightarrow> (case y of Num b \<Rightarrow> Num (a + b) | other \<Rightarrow> other)
      | PosInf \<Rightarrow> (case y of NaN \<Rightarrow> NaN | NegInf \<Rightarrow> NaN | _ \<Rightarrow> PosInf)
      | NegInf \<Rightarrow> (case y of NaN \<Rightarrow> NaN | PosInf \<Rightarrow> NaN | _ \<Rightarrow> NegInf))"

definition totalAllocated :: "Allocations \<Rightarrow> number" where
  "totalAllocated a = jsAdd (jsAdd (jsAdd (buyback a) (lp a)) (burn a)) (cooling a)"

definition withinRelativeTolerance :: "number \<Rightarrow> real \<Rightarrow> bool" where
  \<comment> \<open>The total matches the fee amount within 1e-6 relative.\<close>
  "withinRelativeTolerance amount feeAmount =
     (case amount of
        Num t \<Rightarrow> \<bar>t - feeAmount\<bar> \<le> \<bar>feeAmount\<bar> / 1000000
      | _ \<Rightarrow> False)"

section \<open>The circuit breaker and the failure counter\<close>

text \<open>The breaker flag is set exactly when the consecutive-failure counter has reached
  the configured maximum.\<close>

definition breakerInvariant :: "ProtocolConfig \<Rightarrow> ExecutorState \<Rightarrow> bool" where
  "breakerInvariant config st =
     (circuitBreakerActive st =
        (maxConsecutiveFailures (executor config) \<le> real (consecutiveFailures st)))"

section \<open>Concrete inputs\<close>

text \<open>Inputs at which the theorems below are evaluated.\<close>

definition flipInput :: HealthMetricsInput where
  \<comment> \<open>Four buybacks, full coverage, no liquidity, 0.004 percent volatility, a buyback just now.\<close>
  "flipInput =
     \<lparr> buybackCountLast24h = 4, buybackVolumeSolLast24h = 10, recentSellPressureSol = 5,
       currentLiquidity = 0, volatilityPercent24h = 0.004,
       lastBuybackTimestampSeconds = 1700000000, currentTimestampSeconds = 1700000000 \<rparr>"

definition criticalHealthState :: IceHealthState where
  "criticalHealthState =
     \<lparr> timestamp = 1700000000, health = 25,
       metrics =
         \<lparr> buybackFrequency = 25, buybackCoverage = 50, liquidityDepth = 40,
           volatilityPenalty = 20, timeDecay = 7.5 \<rparr>,
       status = MELTING, lastActionTime = 1699980560, healthEpochNumber = 1 \<rparr>"

definition fullBuybackConfig :: AllocationConfig where
  "fullBuybackConfig = \<lparr> buybackPct = 100, lpPct = 0, burnPct = 0, coolingPct = 0 \<rparr>"

definition liveConfig :: ProtocolConfig where
  "liveConfig = defaultConfig\<lparr>executor := defaultExecutorConfig\<lparr>mode := Live\<rparr>\<rparr>"

definition rejectingSwapEnv :: Env where
  \<comment> \<open>Two SOL on the bot's account; the swap engine throws on every quote and swap, as
    the \<open>RaydiumSwapEngine\<close> stub of services/dex/engines.ts does.\<close>
  "rejectingSwapEnv =
     \<lparr> dateNowSeconds = 1700000000, getBalance = Inr 2000000000,
       dryRun = (\<lambda>amount slippage. Inl (Message ''Raydium dryRun not yet implemented'')),
       swap = (\<lambda>amount slippage. Inl (Message ''Raydium swap not yet implemented'')) \<rparr>"

definition failedBalanceEnv :: Env where
  \<comment> \<open>The balance query is rejected.\<close>
  "failedBalanceEnv = rejectingSwapEnv\<lparr>getBalance := Inl (Message ''rpc unavailable'')\<rparr>"

definition fundedExecutor :: Executor where
  \<comment> \<open>Two earlier failures on the counter and one SOL of fees collected.\<close>
  "fundedExecutor =
     \<lparr> executorState = initialExecutorState\<lparr>consecutiveFailures := 2\<rparr>,
       feeTracker =
         \<lparr> totalFeesCollected = 1, lastProcessedSignature = [],
           lastProcessedTimestamp = 0, events = [] \<rparr> \<rparr>"

definition recentExecutor :: Executor where
  \<comment> \<open>\<open>fundedExecutor\<close> after an epoch executed 100 seconds before the clock of the
    environments above.\<close>
  "recentExecutor =
     fundedExecutor\<lparr>executorState :=
       (executorState fundedExecutor)\<lparr>lastExecutionTime := 1699999900\<rparr>\<rparr>"

definition trippedExecutor :: Executor where
  \<comment> \<open>Five failures in a row and the breaker open.\<close>
  "trippedExecutor =
     \<lparr> executorState =
         \<lparr> lastExecutionTime = 0, consecutiveFailures = 5, epochNumber = 5,
           circuitBreakerActive = True \<rparr>,
       feeTracker =
         \<lparr> totalFeesCollected = 0, lastProcessedSignature = [],
           lastProcessedTimestamp = 0, events = [] \<rparr> \<rparr>"

definition lowBalanceEnv :: Env where
  \<comment> \<open>The balance query answers 0.1 SOL, below the default minimum of 0.5.\<close>
  "lowBalanceEnv = rejectingSwapEnv\<lparr>getBalance := Inr 100000000\<rparr>"

definition highImpactEnv :: Env where
  \<comment> \<open>The swap engine quotes a price impact of 1500 bps, above the default ceiling of
    1000.\<close>
  "highImpactEnv =
     rejectingSwapEnv\<lparr>dryRun :=
       (\<lambda>amount slippage.
          Inr \<lparr> quoteInputAmount = 0.85, quoteOutputAmount = 80, priceImpactBps = 1500,
                feeBps = 50, routePath = ''mock-route'' \<rparr>)\<rparr>"

definition nearTripExecutor :: Executor where
  \<comment> \<open>Four failures on the counter, one short of the default maximum, and one SOL of
    fees.\<close>
  "nearTripExecutor =
     \<lparr> executorState = initialExecutorState\<lparr>consecutiveFailures := 4\<rparr>,
       feeTracker =
         \<lparr> totalFeesCollected = 1, lastProcessedSignature = [],
           lastProcessedTimestamp = 0, events = [] \<rparr> \<rparr>"

definition failingCalls :: "ExecutorCall list" where
  \<comment> \<open>Five epochs with a rejected balance query, an inflow of fees, one more epoch.\<close>
  "failingCalls =
     [ExecuteEpoch failedBalanceEnv criticalHealthState,
      ExecuteEpoch failedBalanceEnv criticalHealthState,
      ExecuteEpoch failedBalanceEnv criticalHealthState,
      ExecuteEpoch failedBalanceEnv criticalHealthState,
      ExecuteEpoch failedBalanceEnv criticalHealthState,
      CollectFees 1,
      ExecuteEpoch rejectingSwapEnv criticalHealthState]"

section \<open>Facts about rounding and clamping\<close>

lemma Math_round_near: "\<bar>Math_round y - y\<bar> \<le> 1 / 2"
  unfolding Math_round_def by linarith

lemma round2dp_near: "\<bar>round2dp x - x\<bar> \<le> 1 / 200"
  using Math_round_near [of "x * 100"] unfolding round2dp_def by (simp add: field_simps)

lemma clamp_lipschitz:
  "\<bar>Math_max 0 (Math_min 100 a) - Math_max 0 (Math_min 100 b)\<bar> \<le> \<bar>a - b\<bar>"
  unfolding Math_max_def Math_min_def by linarith

lemma Math_round_mono: "x \<le> y \<Longrightarrow> Math_round x \<le> Math_round y"
  unfolding Math_round_def by (simp add: floor_mono)

lemma Math_round_of_int: "Math_round (of_int k) = of_int k"
proof -
  have "\<lfloor>(of_int k :: real) + 1 / 2\<rfloor> = k"
    by (rule floor_unique) simp_all
  then show ?thesis
    unfolding Math_round_def by simp
qed

lemma specClamp_code: "specClamp x 0 100 = Math_min 100 (Math_max 0 x)"
  unfolding specClamp_def Math_min_def Math_max_def by linarith

lemma specClamp_code': "specClamp x 0 100 = Math_max 0 (Math_min 100 x)"
  unfolding specClamp_def Math_min_def Math_max_def by linarith

lemma coverage_guard:
  "0 \<le> s \<Longrightarrow> min 100 (if s > 0 then a else 100) = (if s = 0 then 100 else min 100 a)"
  for s a :: real
  by auto

lemma computeMetrics_spec:
  assumes "0 \<le> recentSellPressureSol input"
  shows "computeMetrics input = roundMetrics (specSubScores input)"
  unfolding computeMetrics_def roundMetrics_def specSubScores_def round2dp_def specClamp_code
    Let_def Math_min_def
  by (simp only: coverage_guard [OF assms] IceHealthMetrics.select_convs)

lemma weighted_term:
  "\<bar>w * r - w * u\<bar> \<le> \<bar>w\<bar> * (1 / 200)" if "\<bar>r - u\<bar> \<le> 1 / 200" for w r u :: real
proof -
  have "\<bar>w * r - w * u\<bar> = \<bar>w\<bar> * \<bar>r - u\<bar>"
    by (simp add: abs_mult flip: right_diff_distrib)
  also have "\<dots> \<le> \<bar>w\<bar> * (1 / 200)"
    using that by (intro mult_left_mono) auto
  finally show ?thesis .
qed

lemma abs_sum5:
  "\<bar>a + b + c - d - e\<bar> \<le> \<bar>a\<bar> + \<bar>b\<bar> + \<bar>c\<bar> + \<bar>d\<bar> + \<bar>e\<bar>" for a b c d e :: real
  by linarith

lemma weighted_sum_near:
  "\<bar>specWeightedSum w (roundMetrics m) - specWeightedSum w m\<bar> \<le> sumAbsWeights w / 200"
proof -
  note t = weighted_term [OF round2dp_near]
  define d1 where "d1 =
    weightBuybackFrequency w * round2dp (buybackFrequency m) -
    weightBuybackFrequency w * buybackFrequency m"
  define d2 where "d2 =
    weightBuybackCoverage w * round2dp (buybackCoverage m) -
    weightBuybackCoverage w * buybackCoverage m"
  define d3 where "d3 =
    weightLiquidityDepth w * round2dp (liquidityDepth m) -
    weightLiquidityDepth w * liquidityDepth m"
  define d4 where "d4 =
    weightVolatilityPenalty w * round2dp (volatilityPenalty m) -
    weightVolatilityPenalty w * volatilityPenalty m"
  define d5 where "d5 =
    weightTimeDecay w * round2dp (timeDecay m) - weightTimeDecay w * timeDecay m"
  have eq: "specWeightedSum w (roundMetrics m) - specWeightedSum w m = d1 + d2 + d3 - d4 - d5"
    by (simp add: specWeightedSum_def roundMetrics_def d1_def d2_def d3_def d4_def d5_def)
  have "\<bar>d1\<bar> \<le> \<bar>weightBuybackFrequency w\<bar> * (1 / 200)"
    "\<bar>d2\<bar> \<le> \<bar>weightBuybackCoverage w\<bar> * (1 / 200)"
    "\<bar>d3\<bar> \<le> \<bar>weightLiquidityDepth w\<bar> * (1 / 200)"
    "\<bar>d4\<bar> \<le> \<bar>weightVolatilityPenalty w\<bar> * (1 / 200)"
    "\<bar>d5\<bar> \<le> \<bar>weightTimeDecay w\<bar> * (1 / 200)"
    unfolding d1_def d2_def d3_def d4_def d5_def by (rule t)+
  then have "\<bar>d1\<bar> + \<bar>d2\<bar> + \<bar>d3\<bar> + \<bar>d4\<bar> + \<bar>d5\<bar> \<le> sumAbsWeights w / 200"
    unfolding sumAbsWeights_def by (simp add: field_simps)
  with abs_sum5 [of d1 d2 d3 d4 d5] show ?thesis
    unfolding eq by (rule order_trans)
qed

lemma computeHealthScore_spec: "computeHealthScore config m = specClamp (specWeightedSum (iceHealthWeights config) m) 0 100"
  unfolding computeHealthScore_def specWeightedSum_def specClamp_code' Let_def ..

lemma computeHealthScore_range:
  "0 \<le> computeHealthScore config m \<and> computeHealthScore config m \<le> 100"
  by (simp add: computeHealthScore_def Math_max_def Math_min_def Let_def)

lemma round2_range:
  "0 \<le> h \<Longrightarrow> h \<le> 100 \<Longrightarrow>
   0 \<le> Math_round (h * 100) / 100 \<and> Math_round (h * 100) / 100 \<le> 100"
  using Math_round_mono [of 0 "h * 100"] Math_round_mono [of "h * 100" "10000"]
    Math_round_of_int [of 0] Math_round_of_int [of 10000]
  by simp

lemma computeHealth_fields:
  "timestamp (computeHealth config n input e) = n"
  "health (computeHealth config n input e) =
     Math_round (computeHealthScore config (computeMetrics input) * 100) / 100"
  "metrics (computeHealth config n input e) = computeMetrics input"
  "status (computeHealth config n input e) =
     computeStatus config (computeHealthScore config (computeMetrics input))"
  by (simp_all add: computeHealth_def Let_def)

section \<open>Health engine: the claims\<close>

text \<open>
  C1, as the claim states it, fails at the reported composite score: with the claim's
  input, weights and threshold, the reported health is not 68.64. Evaluated at a last
  buyback at 1700000000 and the current time 3600 seconds later.
\<close>

theorem computeHealth_healthy_input_not_68_64:
  "health (computeHealth defaultConfig 1700003600
       \<lparr> buybackCountLast24h = 5, buybackVolumeSolLast24h = 10, recentSellPressureSol = 5,
         currentLiquidity = 100, volatilityPercent24h = 10,
         lastBuybackTimestampSeconds = 1700000000,
         currentTimestampSeconds = 1700003600 \<rparr> 1) \<noteq> 68.64"
  by (simp add: computeHealth_def computeHealthScore_def computeStatus_def defaultConfig_def
      defaultWeights_def computeMetrics_def Math_min_def Math_max_def Math_round_def Let_def)

text \<open>
  C1, amended. For buybackCountLast24h = 5, buybackVolumeSolLast24h = 10,
  recentSellPressureSol = 5, currentLiquidity = 100, volatilityPercent24h = 10, a last
  buyback exactly 3600 seconds before the current timestamp (whatever that is), weights
  0.25, 0.25, 0.25, 0.15, 0.10 and threshold 50, \<open>computeHealth\<close> returns the
  sub-scores 100, 100, 100, 10 and 1.39, the reported composite health 73.36
  (0.25 * 300 - 0.15 * 10 - 0.10 * 1.39 = 73.361) and the status ALIVE.
\<close>

theorem computeHealth_example:
  "computeHealth defaultConfig n
       \<lparr> buybackCountLast24h = 5, buybackVolumeSolLast24h = 10, recentSellPressureSol = 5,
         currentLiquidity = 100, volatilityPercent24h = 10,
         lastBuybackTimestampSeconds = t - 3600, currentTimestampSeconds = t \<rparr> e
   = \<lparr> timestamp = n, health = 73.36,
       metrics =
         \<lparr> buybackFrequency = 100, buybackCoverage = 100, liquidityDepth = 100,
           volatilityPenalty = 10, timeDecay = 1.39 \<rparr>,
       status = ALIVE, lastActionTime = t - 3600, healthEpochNumber = e \<rparr>"
  by (simp add: computeHealth_def computeHealthScore_def computeStatus_def defaultConfig_def
      defaultWeights_def computeMetrics_def Math_min_def Math_max_def Math_round_def Let_def)

text \<open>
  C2, as the claim states it, fails: the sub-scores are rounded before they enter the
  weighted sum. At \<open>flipInput\<close> with the default weights and threshold 50 the
  volatility sub-score 0.004 is rounded to 0.00, the source's composite is exactly 50 and
  the status is ALIVE, while the composite of the unrounded sub-scores is 49.9994, for
  which the status rule gives MELTING.
\<close>

theorem computeHealth_status_differs_from_unrounded:
  "computeHealthScore defaultConfig (computeMetrics flipInput) = 50 \<and>
   specComposite defaultConfig flipInput = 49.9994 \<and>
   status (computeHealth defaultConfig 1700000000 flipInput 1) = ALIVE \<and>
   computeStatus defaultConfig (specComposite defaultConfig flipInput) = MELTING"
  by (simp add: computeHealth_def computeHealthScore_def computeStatus_def defaultConfig_def
      defaultWeights_def computeMetrics_def Math_min_def Math_max_def Math_round_def Let_def
      specComposite_def specWeightedSum_def specSubScores_def specClamp_def flipInput_def)

text \<open>
  C2, amended. For every input with a non-negative sell pressure, \<open>computeHealth\<close>
  rounds each sub-score to 2 decimal places before the weighted sum: the metrics it
  reports, which are the ones it weighs, are the rounded sub-scores of the specification,
  so the clamped composite differs from the composite of the unrounded sub-scores by at
  most 0.005 times the sum of the absolute weights. The composite itself is rounded for
  the report only: the status is decided on the clamped composite before that rounding,
  and the reported health is its rounding to 2 decimal places.
\<close>

theorem computeHealth_rounds_sub_scores_first:
  assumes "0 \<le> recentSellPressureSol input"
  shows
    "metrics (computeHealth config n input e) = roundMetrics (specSubScores input) \<and>
     \<bar>computeHealthScore config (metrics (computeHealth config n input e))
        - specComposite config input\<bar>
       \<le> sumAbsWeights (iceHealthWeights config) / 200 \<and>
     status (computeHealth config n input e) =
       computeStatus config
         (computeHealthScore config (metrics (computeHealth config n input e))) \<and>
     health (computeHealth config n input e) =
       round2dp (computeHealthScore config (metrics (computeHealth config n input e)))"
proof -
  let ?rounded = "roundMetrics (specSubScores input)"
  let ?w = "iceHealthWeights config"
  have m: "metrics (computeHealth config n input e) = ?rounded"
    using computeMetrics_spec [OF assms] by (simp add: computeHealth_fields)
  have "\<bar>computeHealthScore config ?rounded - specComposite config input\<bar>
      \<le> \<bar>specWeightedSum ?w ?rounded - specWeightedSum ?w (specSubScores input)\<bar>"
    unfolding computeHealthScore_spec specComposite_def specClamp_code'
    by (rule clamp_lipschitz)
  also have "\<dots> \<le> sumAbsWeights ?w / 200"
    by (rule weighted_sum_near)
  finally have d:
    "\<bar>computeHealthScore config ?rounded - specComposite config input\<bar>
      \<le> sumAbsWeights ?w / 200" .
  show ?thesis
    using d unfolding m
    by (simp add: computeHealth_fields round2dp_def computeMetrics_spec [OF assms])
qed

theorem computeHealth_rounds_sub_scores_first_witness:
  "0 \<le> recentSellPressureSol flipInput \<and>
   metrics (computeHealth defaultConfig 1700000000 flipInput 1)
     = roundMetrics (specSubScores flipInput) \<and>
   \<bar>computeHealthScore defaultConfig (metrics (computeHealth defaultConfig 1700000000 flipInput 1))
      - specComposite defaultConfig flipInput\<bar>
     \<le> sumAbsWeights (iceHealthWeights defaultConfig) / 200 \<and>
   status (computeHealth defaultConfig 1700000000 flipInput 1) =
     computeStatus defaultConfig
       (computeHealthScore defaultConfig
          (metrics (computeHealth defaultConfig 1700000000 flipInput 1))) \<and>
   health (computeHealth defaultConfig 1700000000 flipInput 1) =
     round2dp
       (computeHealthScore defaultConfig
          (metrics (computeHealth defaultConfig 1700000000 flipInput 1)))"
proof -
  have h: "0 \<le> recentSellPressureSol flipInput"
    by (simp add: flipInput_def)
  from computeHealth_rounds_sub_scores_first [OF h, of defaultConfig 1700000000 1] h
  show ?thesis by blast
qed

text \<open>
  C3. The composite health score of \<open>computeHealth\<close> lies in the interval from 0
  to 100, both the clamped score the status is decided on and the reported, rounded one.
  The clamp gives this for every weight vector and every input, so in particular for
  weights that sum to 1 and inputs with non-negative fields.
\<close>

theorem computeHealth_score_in_range:
  "0 \<le> computeHealthScore config (computeMetrics input) \<and>
   computeHealthScore config (computeMetrics input) \<le> 100 \<and>
   0 \<le> health (computeHealth config n input e) \<and>
   health (computeHealth config n input e) \<le> 100"
  using computeHealthScore_range [of config "computeMetrics input"]
    round2_range [of "computeHealthScore config (computeMetrics input)"]
  by (simp add: computeHealth_fields)

section \<open>Allocation strategies: the claims\<close>

lemma jsDiv_Num: "b \<noteq> 0 \<Longrightarrow> jsDiv (Num a) (Num b) = Num (a / b)"
  by (simp add: jsDiv_def)

lemma jsMul_Num: "jsMul (Num a) (Num b) = Num (a * b)"
  by (simp add: jsMul_def)

lemma jsAdd_Num: "jsAdd (Num a) (Num b) = Num (a + b)"
  by (simp add: jsAdd_def)

text \<open>
  C4. For every fee amount, the adaptive strategy called with a health state whose score
  is 25 and the base configuration 70, 20, 5, 5 allocates 85 percent to the buyback and
  10, 2.5 and 2.5 percent to lp, burn and cooling: the remaining 15 percent in the base
  ratio 20 : 5 : 5.
\<close>

theorem adaptive_allocate_critical_health:
  assumes "health iceHealth = 25"
  shows
    "AdaptiveAllocationStrategy_allocate feeAmount iceHealth
       \<lparr> buybackPct = 70, lpPct = 20, burnPct = 5, coolingPct = 5 \<rparr> =
     \<lparr> totalFeesToAllocate = feeAmount,
       allocations =
         \<lparr> buyback = Num (feeAmount * 0.85), lp = Num (feeAmount * 0.10),
           burn = Num (feeAmount * 0.025), cooling = Num (feeAmount * 0.025) \<rparr>,
       actions = [] \<rparr>"
  using assms
  by (simp add: AdaptiveAllocationStrategy_allocate_def jsMul_def jsDiv_def Let_def)

theorem adaptive_allocate_critical_health_witness:
  "health criticalHealthState = 25 \<and>
   AdaptiveAllocationStrategy_allocate 8 criticalHealthState
       \<lparr> buybackPct = 70, lpPct = 20, burnPct = 5, coolingPct = 5 \<rparr> =
     \<lparr> totalFeesToAllocate = 8,
       allocations =
         \<lparr> buyback = Num 6.8, lp = Num 0.8, burn = Num 0.2, cooling = Num 0.2 \<rparr>,
       actions = [] \<rparr>"
proof -
  have h: "health criticalHealthState = 25"
    by (simp add: criticalHealthState_def)
  from adaptive_allocate_critical_health [OF h, of 8] h show ?thesis
    by simp
qed

text \<open>
  C5. The claim asks for a guard: with a base buyback percentage of 100 the lp, burn and
  cooling amounts are to be 0. The source divides by \<open>100 - baseConfig.buybackPct\<close>
  unguarded. The configuration 100, 0, 0, 0 passes \<open>validateConfig\<close>, and with it
  the three quotients are 0 / 0: for every fee amount and every health state the adaptive
  strategy returns \<open>NaN\<close> as the lp, burn and cooling amounts.
\<close>

theorem adaptive_allocate_full_buyback_NaN:
  "validateConfig (defaultConfig\<lparr>allocationConfig := fullBuybackConfig\<rparr>) \<and>
   lp (allocations (AdaptiveAllocationStrategy_allocate feeAmount iceHealth fullBuybackConfig))
     = NaN \<and>
   burn (allocations (AdaptiveAllocationStrategy_allocate feeAmount iceHealth fullBuybackConfig))
     = NaN \<and>
   cooling (allocations (AdaptiveAllocationStrategy_allocate feeAmount iceHealth fullBuybackConfig))
     = NaN"
  by (simp add: AdaptiveAllocationStrategy_allocate_def fullBuybackConfig_def jsMul_def
      jsDiv_def Let_def validateConfig_def defaultConfig_def defaultWeights_def)

lemma adaptive_total:
  assumes "buybackPct c + lpPct c + burnPct c + coolingPct c = 100" "buybackPct c \<noteq> 100"
  shows "totalAllocated (allocations (AdaptiveAllocationStrategy_allocate feeAmount iceHealth c))
    = Num feeAmount"
proof -
  define d where "d = 100 - buybackPct c"
  have d: "d \<noteq> 0" and s: "lpPct c + burnPct c + coolingPct c = d"
    using assms by (auto simp: d_def)
  define bp where "bp =
    (if health iceHealth < 30 then 85
     else if health iceHealth < 50 then 80
     else if health iceHealth < 70 then buybackPct c
     else 50)"
  define x where "x = lpPct c / d * (100 - bp)"
  define y where "y = burnPct c / d * (100 - bp)"
  define z where "z = coolingPct c / d * (100 - bp)"
  have "x + y + z = (lpPct c + burnPct c + coolingPct c) / d * (100 - bp)"
    unfolding x_def y_def z_def by (simp add: add_divide_distrib distrib_right)
  also have "\<dots> = 100 - bp"
    unfolding s using d by simp
  finally have xyz: "x + y + z = 100 - bp" .
  have "feeAmount * bp / 100 + feeAmount * x / 100 + feeAmount * y / 100 + feeAmount * z / 100
      = feeAmount * (bp + (x + y + z)) / 100"
    by (simp add: field_simps)
  also have "\<dots> = feeAmount"
    unfolding xyz by simp
  finally have tot:
    "feeAmount * bp / 100 + feeAmount * x / 100 + feeAmount * y / 100 + feeAmount * z / 100
      = feeAmount" .
  have "allocations (AdaptiveAllocationStrategy_allocate feeAmount iceHealth c) =
      \<lparr> buyback = Num (feeAmount * bp / 100), lp = Num (feeAmount * x / 100),
        burn = Num (feeAmount * y / 100), cooling = Num (feeAmount * z / 100) \<rparr>"
    unfolding AdaptiveAllocationStrategy_allocate_def Let_def bp_def [symmetric] d_def [symmetric]
    unfolding jsDiv_Num [OF d] jsMul_Num x_def [symmetric] y_def [symmetric] z_def [symmetric]
    by (simp add: jsDiv_Num)
  then show ?thesis
    unfolding totalAllocated_def by (simp add: jsAdd_Num tot)
qed

lemma fixed_total:
  assumes "buybackPct c + lpPct c + burnPct c + coolingPct c = 100"
  shows "totalAllocated (allocations (FixedAllocationStrategy_allocate feeAmount iceHealth c))
    = Num feeAmount"
proof -
  have "feeAmount * buybackPct c / 100 + feeAmount * lpPct c / 100 +
      feeAmount * burnPct c / 100 + feeAmount * coolingPct c / 100
    = feeAmount * (buybackPct c + lpPct c + burnPct c + coolingPct c) / 100"
    by (simp add: field_simps)
  also have "\<dots> = feeAmount"
    unfolding assms by simp
  finally show ?thesis
    unfolding FixedAllocationStrategy_allocate_def totalAllocated_def
    by (simp add: jsDiv_Num jsAdd_Num)
qed

lemma withinRelativeTolerance_exact: "withinRelativeTolerance (Num f) f"
  by (simp add: withinRelativeTolerance_def)

text \<open>
  C6. For every fee amount, every health state and every allocation configuration whose
  four percentages sum to exactly 100, the four amounts of the fixed strategy sum to the
  fee amount, exactly and so within the relative tolerance 1e-6; when the base buyback
  percentage is not 100 (in particular below 100) the same holds for the adaptive
  strategy. Arithmetic is exact here.
\<close>

theorem allocate_total_is_fee:
  assumes "buybackPct c + lpPct c + burnPct c + coolingPct c = 100"
  shows
    "totalAllocated (allocations (FixedAllocationStrategy_allocate feeAmount iceHealth c))
       = Num feeAmount \<and>
     withinRelativeTolerance
       (totalAllocated (allocations (FixedAllocationStrategy_allocate feeAmount iceHealth c)))
       feeAmount \<and>
     (buybackPct c \<noteq> 100 \<longrightarrow>
        totalAllocated (allocations (AdaptiveAllocationStrategy_allocate feeAmount iceHealth c))
          = Num feeAmount \<and>
        withinRelativeTolerance
          (totalAllocated
             (allocations (AdaptiveAllocationStrategy_allocate feeAmount iceHealth c)))
          feeAmount)"
  using fixed_total [OF assms] adaptive_total [OF assms]
  by (simp add: withinRelativeTolerance_exact)

theorem allocate_total_is_fee_witness:
  "buybackPct defaultAllocationConfig + lpPct defaultAllocationConfig +
     burnPct defaultAllocationConfig + coolingPct defaultAllocationConfig = 100 \<and>
   buybackPct defaultAllocationConfig \<noteq> 100 \<and>
   totalAllocated
     (allocations (FixedAllocationStrategy_allocate 8 criticalHealthState defaultAllocationConfig))
     = Num 8 \<and>
   withinRelativeTolerance
     (totalAllocated
        (allocations
           (FixedAllocationStrategy_allocate 8 criticalHealthState defaultAllocationConfig)))
     8 \<and>
   totalAllocated
     (allocations
        (AdaptiveAllocationStrategy_allocate 8 criticalHealthState defaultAllocationConfig))
     = Num 8 \<and>
   withinRelativeTolerance
     (totalAllocated
        (allocations
           (AdaptiveAllocationStrategy_allocate 8 criticalHealthState defaultAllocationConfig)))
     8"
proof -
  have h: "buybackPct defaultAllocationConfig + lpPct defaultAllocationConfig +
      burnPct defaultAllocationConfig + coolingPct defaultAllocationConfig = 100"
    and n: "buybackPct defaultAllocationConfig \<noteq> 100"
    by (simp_all add: defaultAllocationConfig_def)
  from allocate_total_is_fee [OF h, of 8 criticalHealthState] h n show ?thesis
    by blast
qed

section \<open>Executor: the paths through an epoch\<close>

lemma executeEpoch_try_returns: "\<exists>r. executeEpoch_try config env iceHealth ex = Inr r"
  by (simp add: executeEpoch_try_def Let_def)

lemma incrementEpochNumber_fields:
  "feeTracker (incrementEpochNumber ex) = feeTracker ex"
  "lastExecutionTime (executorState (incrementEpochNumber ex))
     = lastExecutionTime (executorState ex)"
  "consecutiveFailures (executorState (incrementEpochNumber ex))
     = consecutiveFailures (executorState ex)"
  "circuitBreakerActive (executorState (incrementEpochNumber ex))
     = circuitBreakerActive (executorState ex)"
  "epochNumber (executorState (incrementEpochNumber ex)) = epochNumber (executorState ex) + 1"
  by (simp_all add: incrementEpochNumber_def)

lemma incrementFailureCount_fields:
  "lastExecutionTime (incrementFailureCount config st) = lastExecutionTime st"
  "epochNumber (incrementFailureCount config st) = epochNumber st"
  "consecutiveFailures (incrementFailureCount config st) = consecutiveFailures st + 1"
  "circuitBreakerActive (incrementFailureCount config st) =
     (circuitBreakerActive st \<or>
      maxConsecutiveFailures (executor config) \<le> real (consecutiveFailures st + 1))"
  by (simp_all add: incrementFailureCount_def Let_def)

lemma executeEpoch_breaker:
  "circuitBreakerActive (executorState ex) \<Longrightarrow>
   executeEpoch config env iceHealth ex = (None, incrementEpochNumber ex)"
  by (simp add: executeEpoch_def executeEpoch_try_def incrementEpochNumber_fields Let_def)

lemma executeEpoch_rate_limited:
  "real_of_int (dateNowSeconds env - lastExecutionTime (executorState ex))
     < minIntervalSeconds (executor config) \<Longrightarrow>
   executeEpoch config env iceHealth ex = (None, incrementEpochNumber ex)"
  by (simp add: executeEpoch_def executeEpoch_try_def incrementEpochNumber_fields Let_def)

lemma executeEpoch_low_balance:
  "\<not> circuitBreakerActive (executorState ex) \<Longrightarrow>
   \<not> real_of_int (dateNowSeconds env - lastExecutionTime (executorState ex))
       < minIntervalSeconds (executor config) \<Longrightarrow>
   checkBotBalance env < minBalanceToOperateSol (executor config) \<Longrightarrow>
   executeEpoch config env iceHealth ex =
     (None,
      (incrementEpochNumber ex)\<lparr>executorState :=
         incrementFailureCount config (executorState (incrementEpochNumber ex))\<rparr>)"
  by (simp add: executeEpoch_def executeEpoch_try_def incrementEpochNumber_fields Let_def)

lemma executeEpoch_dust:
  "minBalanceToOperateSol (executor config) \<le> checkBotBalance env \<Longrightarrow>
   totalFeesCollected (feeTracker ex) < 0.01 \<Longrightarrow>
   executeEpoch config env iceHealth ex = (None, incrementEpochNumber ex)"
  by (simp add: executeEpoch_def executeEpoch_try_def incrementEpochNumber_fields Let_def)

lemma executeEpoch_settled:
  "\<not> circuitBreakerActive (executorState ex) \<Longrightarrow>
   \<not> real_of_int (dateNowSeconds env - lastExecutionTime (executorState ex))
       < minIntervalSeconds (executor config) \<Longrightarrow>
   minBalanceToOperateSol (executor config) \<le> checkBotBalance env \<Longrightarrow>
   0.01 \<le> totalFeesCollected (feeTracker ex) \<Longrightarrow>
   executeEpoch config env iceHealth ex =
     (Some (if mode (executor config) = Live
            then executeActions config env
                   (allocationStrategy config (totalFeesCollected (feeTracker ex)) iceHealth
                      (allocationConfig config))
            else allocationStrategy config (totalFeesCollected (feeTracker ex)) iceHealth
                   (allocationConfig config)),
      (incrementEpochNumber ex)\<lparr>executorState :=
          (executorState (incrementEpochNumber ex))\<lparr>lastExecutionTime := dateNowSeconds env,
             consecutiveFailures := 0\<rparr>,
        feeTracker := (feeTracker ex)\<lparr>totalFeesCollected := 0\<rparr>\<rparr>)"
  by (simp add: executeEpoch_def executeEpoch_try_def incrementEpochNumber_fields Let_def)

text \<open>Every epoch is a silent abort, a counted failure or a settled epoch.\<close>

lemma executeEpoch_cases:
  obtains (silent) "executeEpoch config env iceHealth ex = (None, incrementEpochNumber ex)"
  | (failure) "\<not> circuitBreakerActive (executorState ex)"
      "snd (executeEpoch config env iceHealth ex) =
         (incrementEpochNumber ex)\<lparr>executorState :=
            incrementFailureCount config (executorState (incrementEpochNumber ex))\<rparr>"
      "fst (executeEpoch config env iceHealth ex) = None"
  | (settled) "\<not> circuitBreakerActive (executorState ex)"
      "executorState (snd (executeEpoch config env iceHealth ex)) =
         (executorState (incrementEpochNumber ex))\<lparr>lastExecutionTime := dateNowSeconds env,
            consecutiveFailures := 0\<rparr>"
      "fst (executeEpoch config env iceHealth ex) \<noteq> None"
proof -
  let ?limited = "real_of_int (dateNowSeconds env - lastExecutionTime (executorState ex))
      < minIntervalSeconds (executor config)"
  consider "circuitBreakerActive (executorState ex)"
    | "\<not> circuitBreakerActive (executorState ex)" "?limited"
    | "\<not> circuitBreakerActive (executorState ex)" "\<not> ?limited"
      "checkBotBalance env < minBalanceToOperateSol (executor config)"
    | "\<not> circuitBreakerActive (executorState ex)" "\<not> ?limited"
      "minBalanceToOperateSol (executor config) \<le> checkBotBalance env"
      "totalFeesCollected (feeTracker ex) < 0.01"
    | "\<not> circuitBreakerActive (executorState ex)" "\<not> ?limited"
      "minBalanceToOperateSol (executor config) \<le> checkBotBalance env"
      "0.01 \<le> totalFeesCollected (feeTracker ex)"
    by linarith
  then show thesis
  proof cases
    case 1
    then show ?thesis by (intro silent executeEpoch_breaker)
  next
    case 2
    then show ?thesis by (intro silent executeEpoch_rate_limited)
  next
    case 3
    then show ?thesis by (intro failure) (simp_all add: executeEpoch_low_balance)
  next
    case 4
    then show ?thesis by (intro silent executeEpoch_dust)
  next
    case 5
    then show ?thesis by (intro settled) (simp_all add: executeEpoch_settled)
  qed
qed

lemma checkBotBalance_failed: "checkBotBalance failedBalanceEnv = 0"
  by (simp add: checkBotBalance_def failedBalanceEnv_def)

lemma checkBotBalance_ok: "checkBotBalance rejectingSwapEnv = 2"
  by (simp add: checkBotBalance_def rejectingSwapEnv_def)

lemma checkBotBalance_rejected: "getBalance env = Inl error \<Longrightarrow> checkBotBalance env = 0"
  by (simp add: checkBotBalance_def)

section \<open>Executor: the claims\<close>

text \<open>
  C7. Whenever \<open>executeEpoch\<close> aborts at a silent precondition (the circuit breaker
  is active; or the time since the last execution is below \<open>minIntervalSeconds\<close>; or
  the balance check passed and the accumulated fees are below the dust threshold 0.01) it
  returns null and changes nothing but the epoch counter: \<open>consecutiveFailures\<close>,
  \<open>circuitBreakerActive\<close>, \<open>lastExecutionTime\<close> and the fee tracker's
  \<open>totalFeesCollected\<close> are as before.
\<close>

theorem executeEpoch_silent_abort:
  assumes "circuitBreakerActive (executorState ex) \<or>
     real_of_int (dateNowSeconds env - lastExecutionTime (executorState ex))
       < minIntervalSeconds (executor config) \<or>
     (minBalanceToOperateSol (executor config) \<le> checkBotBalance env \<and>
      totalFeesCollected (feeTracker ex) < 0.01)"
  shows
    "executeEpoch config env iceHealth ex = (None, incrementEpochNumber ex) \<and>
     consecutiveFailures (getState (snd (executeEpoch config env iceHealth ex)))
       = consecutiveFailures (getState ex) \<and>
     circuitBreakerActive (getState (snd (executeEpoch config env iceHealth ex)))
       = circuitBreakerActive (getState ex) \<and>
     lastExecutionTime (getState (snd (executeEpoch config env iceHealth ex)))
       = lastExecutionTime (getState ex) \<and>
     totalFeesCollected (feeTracker (snd (executeEpoch config env iceHealth ex)))
       = totalFeesCollected (feeTracker ex)"
proof -
  have "executeEpoch config env iceHealth ex = (None, incrementEpochNumber ex)"
    using assms executeEpoch_breaker executeEpoch_rate_limited executeEpoch_dust by blast
  then show ?thesis
    by (simp add: getState_def incrementEpochNumber_fields)
qed

theorem executeEpoch_silent_abort_witness:
  "circuitBreakerActive (executorState trippedExecutor) \<and>
   executeEpoch defaultConfig rejectingSwapEnv criticalHealthState trippedExecutor
     = (None, incrementEpochNumber trippedExecutor) \<and>
   real_of_int (dateNowSeconds rejectingSwapEnv - lastExecutionTime (executorState recentExecutor))
     < minIntervalSeconds (executor defaultConfig) \<and>
   executeEpoch defaultConfig rejectingSwapEnv criticalHealthState recentExecutor
     = (None, incrementEpochNumber recentExecutor) \<and>
   minBalanceToOperateSol (executor defaultConfig) \<le> checkBotBalance rejectingSwapEnv \<and>
   totalFeesCollected (feeTracker newExecutor) < 0.01 \<and>
   executeEpoch defaultConfig rejectingSwapEnv criticalHealthState newExecutor
     = (None, incrementEpochNumber newExecutor)"
proof -
  have a: "circuitBreakerActive (executorState trippedExecutor)"
    by (simp add: trippedExecutor_def)
  have b: "real_of_int
      (dateNowSeconds rejectingSwapEnv - lastExecutionTime (executorState recentExecutor))
     < minIntervalSeconds (executor defaultConfig)"
    by (simp add: rejectingSwapEnv_def recentExecutor_def defaultConfig_def
        defaultExecutorConfig_def)
  have c: "minBalanceToOperateSol (executor defaultConfig) \<le> checkBotBalance rejectingSwapEnv"
    "totalFeesCollected (feeTracker newExecutor) < 0.01"
    by (simp_all add: checkBotBalance_ok defaultConfig_def defaultExecutorConfig_def
        newExecutor_def)
  from executeEpoch_silent_abort
      [of trippedExecutor rejectingSwapEnv defaultConfig criticalHealthState]
    executeEpoch_silent_abort
      [of recentExecutor rejectingSwapEnv defaultConfig criticalHealthState]
    executeEpoch_silent_abort
      [of newExecutor rejectingSwapEnv defaultConfig criticalHealthState]
    a b c
  show ?thesis by blast
qed

lemma executeEpoch_breaker_flag:
  "circuitBreakerActive (executorState (snd (executeEpoch config env iceHealth ex))) =
     (circuitBreakerActive (executorState ex) \<or>
      (consecutiveFailures (executorState (snd (executeEpoch config env iceHealth ex)))
         = consecutiveFailures (executorState ex) + 1 \<and>
       maxConsecutiveFailures (executor config)
         \<le> real (consecutiveFailures
                    (executorState (snd (executeEpoch config env iceHealth ex))))))"
proof (cases rule: executeEpoch_cases [of config env iceHealth ex])
  case silent
  then show ?thesis by (simp add: incrementEpochNumber_fields)
next
  case failure
  then show ?thesis by (simp add: incrementEpochNumber_fields incrementFailureCount_fields)
next
  case settled
  then show ?thesis by (simp add: incrementEpochNumber_fields)
qed

lemma applyCall_sticky:
  "circuitBreakerActive (executorState ex) \<Longrightarrow> \<not> isReset call \<Longrightarrow>
   circuitBreakerActive (executorState (applyCall config call ex)) \<and>
   consecutiveFailures (executorState (applyCall config call ex))
     = consecutiveFailures (executorState ex)"
  by (cases call) (simp_all add: executeEpoch_breaker incrementEpochNumber_fields)

lemma runCalls_sticky:
  "circuitBreakerActive (executorState ex) \<Longrightarrow> \<not> list_ex isReset calls \<Longrightarrow>
   circuitBreakerActive (executorState (runCalls config calls ex)) \<and>
   consecutiveFailures (executorState (runCalls config calls ex))
     = consecutiveFailures (executorState ex)"
proof (induction calls arbitrary: ex)
  case Nil
  then show ?case by simp
next
  case (Cons call calls)
  from Cons.prems have nr: "\<not> isReset call" and rest: "\<not> list_ex isReset calls"
    by simp_all
  note step = applyCall_sticky [OF Cons.prems(1) nr, of config]
  from Cons.IH [OF conjunct1 [OF step] rest] step show ?case
    by simp
qed

lemma applyCall_invariant:
  assumes "0 < maxConsecutiveFailures (executor config)"
    and "breakerInvariant config (executorState ex)"
  shows "breakerInvariant config (executorState (applyCall config call ex))"
proof (cases call)
  case (ExecuteEpoch env iceHealth)
  show ?thesis
  proof (cases rule: executeEpoch_cases [of config env iceHealth ex])
    case silent
    with assms(2) show ?thesis
      by (simp add: ExecuteEpoch breakerInvariant_def incrementEpochNumber_fields)
  next
    case failure
    with assms(2) show ?thesis
      by (auto simp add: ExecuteEpoch breakerInvariant_def incrementEpochNumber_fields
          incrementFailureCount_fields)
  next
    case settled
    with assms show ?thesis
      by (simp add: ExecuteEpoch breakerInvariant_def incrementEpochNumber_fields)
  qed
next
  case ResetCircuitBreaker
  with assms(1) show ?thesis
    by (simp add: breakerInvariant_def resetCircuitBreaker_def)
next
  case (CollectFees amount)
  with assms(2) show ?thesis
    by (simp add: breakerInvariant_def)
qed

lemma runCalls_invariant:
  assumes "0 < maxConsecutiveFailures (executor config)"
  shows "breakerInvariant config (executorState ex) \<Longrightarrow>
    breakerInvariant config (executorState (runCalls config calls ex))"
  by (induction calls arbitrary: ex) (simp_all add: applyCall_invariant [OF assms])

lemma newExecutor_invariant:
  "0 < maxConsecutiveFailures (executor config) \<Longrightarrow>
   breakerInvariant config (executorState newExecutor)"
  by (simp add: breakerInvariant_def newExecutor_def initialExecutorState_def)

lemma checkBotBalance_low:
  "(checkBotBalance env < m) =
     (case getBalance env of Inr lamports \<Rightarrow> lamports / 1000000000 < m | Inl error \<Rightarrow> 0 < m)"
  by (simp add: checkBotBalance_def split: sum.splits)

text \<open>The failure counter and the breaker flag after an epoch, from the inputs of the
  epoch.\<close>

lemma executeEpoch_counter:
  "consecutiveFailures (executorState (snd (executeEpoch config env iceHealth ex))) =
     (if circuitBreakerActive (executorState ex) \<or>
         real_of_int (dateNowSeconds env - lastExecutionTime (executorState ex))
           < minIntervalSeconds (executor config)
      then consecutiveFailures (executorState ex)
      else if checkBotBalance env < minBalanceToOperateSol (executor config)
      then consecutiveFailures (executorState ex) + 1
      else if totalFeesCollected (feeTracker ex) < 0.01
      then consecutiveFailures (executorState ex)
      else 0)"
proof -
  let ?limited = "real_of_int (dateNowSeconds env - lastExecutionTime (executorState ex))
      < minIntervalSeconds (executor config)"
  consider "circuitBreakerActive (executorState ex)"
    | "\<not> circuitBreakerActive (executorState ex)" "?limited"
    | "\<not> circuitBreakerActive (executorState ex)" "\<not> ?limited"
      "checkBotBalance env < minBalanceToOperateSol (executor config)"
    | "\<not> circuitBreakerActive (executorState ex)" "\<not> ?limited"
      "minBalanceToOperateSol (executor config) \<le> checkBotBalance env"
      "totalFeesCollected (feeTracker ex) < 0.01"
    | "\<not> circuitBreakerActive (executorState ex)" "\<not> ?limited"
      "minBalanceToOperateSol (executor config) \<le> checkBotBalance env"
      "0.01 \<le> totalFeesCollected (feeTracker ex)"
    by linarith
  then show ?thesis
  proof cases
    case 1
    then show ?thesis
      by (simp add: executeEpoch_breaker incrementEpochNumber_fields)
  next
    case 2
    then show ?thesis
      by (simp add: executeEpoch_rate_limited incrementEpochNumber_fields)
  next
    case 3
    then show ?thesis
      by (simp add: executeEpoch_low_balance incrementEpochNumber_fields
          incrementFailureCount_fields)
  next
    case 4
    then show ?thesis
      by (simp add: executeEpoch_dust incrementEpochNumber_fields)
  next
    case 5
    then show ?thesis
      by (simp add: executeEpoch_settled)
  qed
qed

lemma executeEpoch_flag:
  "circuitBreakerActive (executorState (snd (executeEpoch config env iceHealth ex))) =
     (circuitBreakerActive (executorState ex) \<or>
      (minIntervalSeconds (executor config)
         \<le> real_of_int (dateNowSeconds env - lastExecutionTime (executorState ex)) \<and>
       checkBotBalance env < minBalanceToOperateSol (executor config) \<and>
       maxConsecutiveFailures (executor config)
         \<le> real (consecutiveFailures (executorState ex) + 1)))"
proof -
  let ?limited = "real_of_int (dateNowSeconds env - lastExecutionTime (executorState ex))
      < minIntervalSeconds (executor config)"
  consider "circuitBreakerActive (executorState ex)"
    | "\<not> circuitBreakerActive (executorState ex)" "?limited"
    | "\<not> circuitBreakerActive (executorState ex)" "\<not> ?limited"
      "checkBotBalance env < minBalanceToOperateSol (executor config)"
    | "\<not> circuitBreakerActive (executorState ex)" "\<not> ?limited"
      "minBalanceToOperateSol (executor config) \<le> checkBotBalance env"
      "totalFeesCollected (feeTracker ex) < 0.01"
    | "\<not> circuitBreakerActive (executorState ex)" "\<not> ?limited"
      "minBalanceToOperateSol (executor config) \<le> checkBotBalance env"
      "0.01 \<le> totalFeesCollected (feeTracker ex)"
    by linarith
  then show ?thesis
  proof cases
    case 1
    then show ?thesis
      by (simp add: executeEpoch_breaker incrementEpochNumber_fields)
  next
    case 2
    then show ?thesis
      by (simp add: executeEpoch_rate_limited incrementEpochNumber_fields)
  next
    case 3
    then show ?thesis
      by (simp add: executeEpoch_low_balance incrementEpochNumber_fields
          incrementFailureCount_fields)
  next
    case 4
    then show ?thesis
      by (simp add: executeEpoch_dust incrementEpochNumber_fields)
  next
    case 5
    then show ?thesis
      by (simp add: executeEpoch_settled incrementEpochNumber_fields)
  qed
qed

text \<open>
  C8, as the claim states it, fails where it counts caught exceptions: an exception
  caught inside an action is not counted. In live mode, with four failures on the counter
  and a maximum of five, a quote above the price-impact ceiling makes
  \<open>executeBuyback\<close> throw; the exception is caught there, the counter does not reach
  five but is reset to 0, and the breaker stays closed.
\<close>

theorem executeEpoch_caught_exception_does_not_trip:
  "executeBuyback_try liveConfig highImpactEnv (pendingAction Buyback (Num 0.85))
     = Inl (PriceImpactTooHigh 1500 1000) \<and>
   consecutiveFailures (executorState nearTripExecutor) = 4 \<and>
   maxConsecutiveFailures (executor liveConfig) = 5 \<and>
   fst (executeEpoch liveConfig highImpactEnv criticalHealthState nearTripExecutor)
     \<noteq> None \<and>
   consecutiveFailures
     (executorState
        (snd (executeEpoch liveConfig highImpactEnv criticalHealthState nearTripExecutor)))
     = 0 \<and>
   \<not> circuitBreakerActive
     (executorState
        (snd (executeEpoch liveConfig highImpactEnv criticalHealthState nearTripExecutor)))"
  by (simp add: executeBuyback_try_def highImpactEnv_def rejectingSwapEnv_def
      pendingAction_def liveConfig_def defaultConfig_def defaultExecutorConfig_def
      nearTripExecutor_def initialExecutorState_def executeEpoch_def executeEpoch_try_def
      incrementEpochNumber_def checkBotBalance_def Let_def)

text \<open>
  C8, amended. The breaker flag becomes true exactly when the failure counter reaches the
  configured maximum. The counter is incremented by exactly 1 by each low-balance abort:
  an epoch with the breaker closed and the minimum interval passed whose balance, the
  lamports answered divided by 1e9, or 0 when the balance query fails, is below
  \<open>minBalanceToOperateSol\<close>; and by \<open>executeEpoch\<close>'s own \<open>catch\<close> clause
  for an exception that reaches it. No other epoch counts a failure: behind an open
  breaker, inside the minimum interval or below the dust threshold the counter is
  unchanged, and an epoch that reaches allocation resets it to 0 whatever its actions
  throw and catch. So an epoch sets the flag exactly when the flag was clear, the epoch is
  a low-balance abort and the counter plus 1 has reached the maximum; with a positive
  maximum the flag is set exactly when the counter has reached the maximum, in every
  state that calls of \<open>executeEpoch\<close>, \<open>resetCircuitBreaker\<close> and fee inflows
  lead to from a new executor. Once the flag is set, an epoch returns null and leaves it
  set, and so does every sequence of calls without a reset.
  \<open>resetCircuitBreaker\<close> clears the flag and zeroes the counter.
\<close>

theorem circuit_breaker_trips_and_sticks:
  "consecutiveFailures (incrementFailureCount config st) = consecutiveFailures st + 1 \<and>
   circuitBreakerActive (incrementFailureCount config st) =
     (circuitBreakerActive st \<or>
      maxConsecutiveFailures (executor config)
        \<le> real (consecutiveFailures (incrementFailureCount config st))) \<and>
   consecutiveFailures (executorState (snd (executeEpoch config env iceHealth ex))) =
     (if circuitBreakerActive (executorState ex) \<or>
         real_of_int (dateNowSeconds env - lastExecutionTime (executorState ex))
           < minIntervalSeconds (executor config)
      then consecutiveFailures (executorState ex)
      else if (case getBalance env of
                 Inr lamports \<Rightarrow>
                   lamports / 1000000000 < minBalanceToOperateSol (executor config)
               | Inl error \<Rightarrow> 0 < minBalanceToOperateSol (executor config))
      then consecutiveFailures (executorState ex) + 1
      else if totalFeesCollected (feeTracker ex) < 0.01
      then consecutiveFailures (executorState ex)
      else 0) \<and>
   circuitBreakerActive (executorState (snd (executeEpoch config env iceHealth ex))) =
     (circuitBreakerActive (executorState ex) \<or>
      (minIntervalSeconds (executor config)
         \<le> real_of_int (dateNowSeconds env - lastExecutionTime (executorState ex)) \<and>
       (case getBalance env of
          Inr lamports \<Rightarrow> lamports / 1000000000 < minBalanceToOperateSol (executor config)
        | Inl error \<Rightarrow> 0 < minBalanceToOperateSol (executor config)) \<and>
       maxConsecutiveFailures (executor config)
         \<le> real (consecutiveFailures (executorState ex) + 1))) \<and>
   fst (executeEpoch_catch config caught ex) = None \<and>
   consecutiveFailures (executorState (snd (executeEpoch_catch config caught ex)))
     = consecutiveFailures (executorState ex) + 1 \<and>
   circuitBreakerActive (executorState (snd (executeEpoch_catch config caught ex))) =
     (circuitBreakerActive (executorState ex) \<or>
      maxConsecutiveFailures (executor config)
        \<le> real (consecutiveFailures (executorState ex) + 1)) \<and>
   circuitBreakerActive (executorState (snd (executeEpoch config env iceHealth ex))) =
     (circuitBreakerActive (executorState ex) \<or>
      (consecutiveFailures (executorState (snd (executeEpoch config env iceHealth ex)))
         = consecutiveFailures (executorState ex) + 1 \<and>
       maxConsecutiveFailures (executor config)
         \<le> real (consecutiveFailures
                    (executorState (snd (executeEpoch config env iceHealth ex)))))) \<and>
   (0 < maxConsecutiveFailures (executor config) \<longrightarrow>
      breakerInvariant config (executorState (runCalls config calls newExecutor))) \<and>
   (circuitBreakerActive (executorState ex) \<longrightarrow>
      fst (executeEpoch config env iceHealth ex) = None \<and>
      circuitBreakerActive (executorState (snd (executeEpoch config env iceHealth ex)))) \<and>
   (circuitBreakerActive (executorState ex) \<and> \<not> list_ex isReset calls \<longrightarrow>
      circuitBreakerActive (executorState (runCalls config calls ex))) \<and>
   circuitBreakerActive (resetCircuitBreaker st) = False \<and>
   consecutiveFailures (resetCircuitBreaker st) = 0"
proof -
  have inc: "consecutiveFailures (incrementFailureCount config st) = consecutiveFailures st + 1"
    "circuitBreakerActive (incrementFailureCount config st) =
     (circuitBreakerActive st \<or>
      maxConsecutiveFailures (executor config)
        \<le> real (consecutiveFailures (incrementFailureCount config st)))"
    by (simp_all add: incrementFailureCount_fields)
  have counter: "consecutiveFailures (executorState (snd (executeEpoch config env iceHealth ex))) =
     (if circuitBreakerActive (executorState ex) \<or>
         real_of_int (dateNowSeconds env - lastExecutionTime (executorState ex))
           < minIntervalSeconds (executor config)
      then consecutiveFailures (executorState ex)
      else if (case getBalance env of
                 Inr lamports \<Rightarrow>
                   lamports / 1000000000 < minBalanceToOperateSol (executor config)
               | Inl error \<Rightarrow> 0 < minBalanceToOperateSol (executor config))
      then consecutiveFailures (executorState ex) + 1
      else if totalFeesCollected (feeTracker ex) < 0.01
      then consecutiveFailures (executorState ex)
      else 0)"
    unfolding checkBotBalance_low [symmetric] by (rule executeEpoch_counter)
  have flag: "circuitBreakerActive (executorState (snd (executeEpoch config env iceHealth ex))) =
     (circuitBreakerActive (executorState ex) \<or>
      (minIntervalSeconds (executor config)
         \<le> real_of_int (dateNowSeconds env - lastExecutionTime (executorState ex)) \<and>
       (case getBalance env of
          Inr lamports \<Rightarrow> lamports / 1000000000 < minBalanceToOperateSol (executor config)
        | Inl error \<Rightarrow> 0 < minBalanceToOperateSol (executor config)) \<and>
       maxConsecutiveFailures (executor config)
         \<le> real (consecutiveFailures (executorState ex) + 1)))"
    unfolding checkBotBalance_low [symmetric] by (rule executeEpoch_flag)
  have handler: "fst (executeEpoch_catch config caught ex) = None"
    "consecutiveFailures (executorState (snd (executeEpoch_catch config caught ex)))
     = consecutiveFailures (executorState ex) + 1"
    "circuitBreakerActive (executorState (snd (executeEpoch_catch config caught ex))) =
     (circuitBreakerActive (executorState ex) \<or>
      maxConsecutiveFailures (executor config)
        \<le> real (consecutiveFailures (executorState ex) + 1))"
    by (simp_all add: executeEpoch_catch_def incrementFailureCount_fields)
  have sticky: "circuitBreakerActive (executorState ex) \<longrightarrow>
      fst (executeEpoch config env iceHealth ex) = None \<and>
      circuitBreakerActive (executorState (snd (executeEpoch config env iceHealth ex)))"
    by (simp add: executeEpoch_breaker incrementEpochNumber_fields)
  have run: "circuitBreakerActive (executorState ex) \<and> \<not> list_ex isReset calls \<longrightarrow>
      circuitBreakerActive (executorState (runCalls config calls ex))"
    using runCalls_sticky [of ex calls config] by blast
  have inv: "0 < maxConsecutiveFailures (executor config) \<longrightarrow>
      breakerInvariant config (executorState (runCalls config calls newExecutor))"
    using runCalls_invariant [OF _ newExecutor_invariant, of config calls] by blast
  have reset: "circuitBreakerActive (resetCircuitBreaker st) = False"
    "consecutiveFailures (resetCircuitBreaker st) = 0"
    by (simp_all add: resetCircuitBreaker_def)
  from inc counter flag handler executeEpoch_breaker_flag [of config env iceHealth ex]
    inv sticky run reset
  show ?thesis by (intro conjI)
qed

lemma failing_epoch:
  assumes "\<not> circuitBreakerActive (executorState ex)"
    and "lastExecutionTime (executorState ex) = 0"
  shows "snd (executeEpoch defaultConfig failedBalanceEnv iceHealth ex) =
    ex\<lparr>executorState :=
         \<lparr> lastExecutionTime = 0,
           consecutiveFailures = consecutiveFailures (executorState ex) + 1,
           epochNumber = epochNumber (executorState ex) + 1,
           circuitBreakerActive = (4 \<le> consecutiveFailures (executorState ex)) \<rparr>\<rparr>"
proof -
  have now: "dateNowSeconds failedBalanceEnv = 1700000000"
    by (simp add: failedBalanceEnv_def rejectingSwapEnv_def)
  have cfg: "minIntervalSeconds (executor defaultConfig) = 300"
    "minBalanceToOperateSol (executor defaultConfig) = 0.5"
    "maxConsecutiveFailures (executor defaultConfig) = 5"
    by (simp_all add: defaultConfig_def defaultExecutorConfig_def)
  have "executeEpoch defaultConfig failedBalanceEnv iceHealth ex =
     (None,
      (incrementEpochNumber ex)\<lparr>executorState :=
         incrementFailureCount defaultConfig (executorState (incrementEpochNumber ex))\<rparr>)"
    by (rule executeEpoch_low_balance) (simp_all add: assms now cfg checkBotBalance_failed)
  then show ?thesis
    using assms by (simp add: incrementEpochNumber_def incrementFailureCount_def cfg Let_def)
qed

lemma failingCalls_run:
  "executorState (runCalls defaultConfig failingCalls newExecutor) =
     \<lparr> lastExecutionTime = 0, consecutiveFailures = 5, epochNumber = 6,
       circuitBreakerActive = True \<rparr>"
  unfolding failingCalls_def
  by (simp add: failing_epoch executeEpoch_breaker newExecutor_def initialExecutorState_def
      incrementEpochNumber_def)

theorem circuit_breaker_trips_and_sticks_witness:
  "0 < maxConsecutiveFailures (executor defaultConfig) \<and>
   circuitBreakerActive (executorState trippedExecutor) \<and>
   \<not> list_ex isReset failingCalls \<and>
   consecutiveFailures (executorState (runCalls defaultConfig failingCalls newExecutor)) = 5 \<and>
   breakerInvariant defaultConfig
     (executorState (runCalls defaultConfig failingCalls newExecutor)) \<and>
   fst (executeEpoch defaultConfig rejectingSwapEnv criticalHealthState trippedExecutor)
     = None \<and>
   circuitBreakerActive
     (executorState
        (snd (executeEpoch defaultConfig rejectingSwapEnv criticalHealthState
                trippedExecutor))) \<and>
   circuitBreakerActive (executorState (runCalls defaultConfig failingCalls trippedExecutor)) \<and>
   consecutiveFailures
     (executorState
        (snd (executeEpoch defaultConfig lowBalanceEnv criticalHealthState nearTripExecutor)))
     = 5 \<and>
   circuitBreakerActive
     (executorState
        (snd (executeEpoch defaultConfig lowBalanceEnv criticalHealthState nearTripExecutor)))"
proof -
  have h: "0 < maxConsecutiveFailures (executor defaultConfig)"
    "circuitBreakerActive (executorState trippedExecutor)"
    "\<not> list_ex isReset failingCalls"
    by (simp_all add: defaultConfig_def defaultExecutorConfig_def trippedExecutor_def
        failingCalls_def)
  have r: "consecutiveFailures
      (executorState (runCalls defaultConfig failingCalls newExecutor)) = 5"
    by (simp add: failingCalls_run)
  have cfg: "minIntervalSeconds (executor defaultConfig) = 300"
    "minBalanceToOperateSol (executor defaultConfig) = 0.5"
    "maxConsecutiveFailures (executor defaultConfig) = 5"
    by (simp_all add: defaultConfig_def defaultExecutorConfig_def)
  have st: "\<not> circuitBreakerActive (executorState nearTripExecutor)"
    "lastExecutionTime (executorState nearTripExecutor) = 0"
    "consecutiveFailures (executorState nearTripExecutor) = 4"
    by (simp_all add: nearTripExecutor_def initialExecutorState_def)
  have env: "dateNowSeconds lowBalanceEnv = 1700000000"
    "getBalance lowBalanceEnv = Inr 100000000"
    by (simp_all add: lowBalanceEnv_def rejectingSwapEnv_def)
  note t = circuit_breaker_trips_and_sticks
      [of defaultConfig "executorState trippedExecutor" rejectingSwapEnv
        criticalHealthState trippedExecutor "Message ''none''" failingCalls]
  note u = circuit_breaker_trips_and_sticks
      [of defaultConfig "executorState trippedExecutor" lowBalanceEnv
        criticalHealthState nearTripExecutor "Message ''none''" failingCalls]
  have low: "consecutiveFailures
     (executorState
        (snd (executeEpoch defaultConfig lowBalanceEnv criticalHealthState nearTripExecutor)))
     = 5"
    "circuitBreakerActive
     (executorState
        (snd (executeEpoch defaultConfig lowBalanceEnv criticalHealthState nearTripExecutor)))"
    using u by (simp_all add: cfg st env)
  from t h r low show ?thesis by blast
qed

lemma executeBuyback_failed:
  "executeBuyback_try config env (pendingAction Buyback solAmount) = Inl error \<Longrightarrow>
   executeBuyback config env solAmount =
     \<lparr> actionType = Buyback, amountSol = solAmount, actionSignature = None,
       actionStatus = Failed, actionError = Some error \<rparr>"
  by (simp add: executeBuyback_def pendingAction_def Let_def)

lemma executeActions_buyback_first:
  "jsGreaterZero (buyback (allocations a)) \<Longrightarrow>
   hd (actions (executeActions config env a))
     = executeBuyback config env (buyback (allocations a))"
  by (simp add: executeActions_def Let_def)

text \<open>
  C9, as the claim states it, fails for an exception during action execution. In live
  mode, with an executor that has two failures on its counter and one SOL of fees, a swap
  engine that rejects the quote raises in \<open>executeBuyback\<close>'s \<open>try\<close> block; the
  exception is caught there, the epoch does not return null, and the failure counter is
  reset to 0 instead of going from 2 to 3.
\<close>

theorem executeEpoch_action_exception_not_counted:
  "executeBuyback_try liveConfig rejectingSwapEnv (pendingAction Buyback (Num 0.85))
     = Inl (Message ''Raydium dryRun not yet implemented'') \<and>
   fst (executeEpoch liveConfig rejectingSwapEnv criticalHealthState fundedExecutor)
     \<noteq> None \<and>
   consecutiveFailures (executorState fundedExecutor) = 2 \<and>
   consecutiveFailures
     (executorState
        (snd (executeEpoch liveConfig rejectingSwapEnv criticalHealthState fundedExecutor)))
     = 0"
  by (simp add: executeBuyback_try_def rejectingSwapEnv_def pendingAction_def liveConfig_def
      defaultConfig_def defaultExecutorConfig_def fundedExecutor_def initialExecutorState_def
      executeEpoch_def executeEpoch_try_def incrementEpochNumber_def checkBotBalance_def
      Let_def)

text \<open>
  C9, amended. \<open>executeEpoch\<close> never propagates an exception to its caller: no
  exception of a collaborator leaves the \<open>try\<close> block, each being caught where it
  is raised. An exception of the balance query is caught in \<open>checkBotBalance\<close> and
  read as a balance of 0: when the epoch reaches the balance check and
  \<open>minBalanceToOperateSol\<close> is positive, the epoch returns null and the
  consecutive-failure counter is incremented by exactly 1. An exception during action
  execution does not fail the epoch: in live mode an epoch that passes its guards returns
  the allocation with its actions and resets the counter to 0, and a buyback whose
  \<open>try\<close> block raised (a rejected quote or swap, or the price-impact error) is the
  first action of the list, with status failed and the error text.
\<close>

theorem executeEpoch_exceptions_caught:
  "(\<exists>r. executeEpoch_try config env iceHealth (incrementEpochNumber ex) = Inr r) \<and>
   (\<not> circuitBreakerActive (executorState ex) \<and>
    \<not> real_of_int (dateNowSeconds env - lastExecutionTime (executorState ex))
        < minIntervalSeconds (executor config) \<and>
    getBalance env = Inl error \<and> 0 < minBalanceToOperateSol (executor config) \<longrightarrow>
      fst (executeEpoch config env iceHealth ex) = None \<and>
      consecutiveFailures (executorState (snd (executeEpoch config env iceHealth ex)))
        = consecutiveFailures (executorState ex) + 1) \<and>
   (\<not> circuitBreakerActive (executorState ex) \<and>
    \<not> real_of_int (dateNowSeconds env - lastExecutionTime (executorState ex))
        < minIntervalSeconds (executor config) \<and>
    minBalanceToOperateSol (executor config) \<le> checkBotBalance env \<and>
    0.01 \<le> totalFeesCollected (feeTracker ex) \<and>
    mode (executor config) = Live \<longrightarrow>
      fst (executeEpoch config env iceHealth ex) =
        Some (executeActions config env
                (allocationStrategy config (totalFeesCollected (feeTracker ex)) iceHealth
                   (allocationConfig config))) \<and>
      consecutiveFailures (executorState (snd (executeEpoch config env iceHealth ex))) = 0) \<and>
   (jsGreaterZero (buyback (allocations a)) \<and>
    executeBuyback_try config env (pendingAction Buyback (buyback (allocations a)))
      = Inl error \<longrightarrow>
      hd (actions (executeActions config env a)) =
        \<lparr> actionType = Buyback, amountSol = buyback (allocations a),
          actionSignature = None, actionStatus = Failed, actionError = Some error \<rparr>)"
proof (intro conjI impI)
  show "\<exists>r. executeEpoch_try config env iceHealth (incrementEpochNumber ex) = Inr r"
    by (rule executeEpoch_try_returns)
next
  assume h: "\<not> circuitBreakerActive (executorState ex) \<and>
    \<not> real_of_int (dateNowSeconds env - lastExecutionTime (executorState ex))
        < minIntervalSeconds (executor config) \<and>
    getBalance env = Inl error \<and> 0 < minBalanceToOperateSol (executor config)"
  then have low: "checkBotBalance env < minBalanceToOperateSol (executor config)"
    by (simp add: checkBotBalance_rejected)
  from h have e: "executeEpoch config env iceHealth ex =
     (None,
      (incrementEpochNumber ex)\<lparr>executorState :=
         incrementFailureCount config (executorState (incrementEpochNumber ex))\<rparr>)"
    by (intro executeEpoch_low_balance low) simp_all
  show "fst (executeEpoch config env iceHealth ex) = None"
    by (simp add: e)
  show "consecutiveFailures (executorState (snd (executeEpoch config env iceHealth ex)))
        = consecutiveFailures (executorState ex) + 1"
    by (simp add: e incrementFailureCount_fields incrementEpochNumber_fields)
next
  assume h: "\<not> circuitBreakerActive (executorState ex) \<and>
    \<not> real_of_int (dateNowSeconds env - lastExecutionTime (executorState ex))
        < minIntervalSeconds (executor config) \<and>
    minBalanceToOperateSol (executor config) \<le> checkBotBalance env \<and>
    0.01 \<le> totalFeesCollected (feeTracker ex) \<and>
    mode (executor config) = Live"
  then have e: "executeEpoch config env iceHealth ex =
     (Some (if mode (executor config) = Live
            then executeActions config env
                   (allocationStrategy config (totalFeesCollected (feeTracker ex)) iceHealth
                      (allocationConfig config))
            else allocationStrategy config (totalFeesCollected (feeTracker ex)) iceHealth
                   (allocationConfig config)),
      (incrementEpochNumber ex)\<lparr>executorState :=
          (executorState (incrementEpochNumber ex))\<lparr>lastExecutionTime := dateNowSeconds env,
             consecutiveFailures := 0\<rparr>,
        feeTracker := (feeTracker ex)\<lparr>totalFeesCollected := 0\<rparr>\<rparr>)"
    by (intro executeEpoch_settled) simp_all
  from h show "fst (executeEpoch config env iceHealth ex) =
        Some (executeActions config env
                (allocationStrategy config (totalFeesCollected (feeTracker ex)) iceHealth
                   (allocationConfig config)))"
    by (simp add: e)
  show "consecutiveFailures (executorState (snd (executeEpoch config env iceHealth ex))) = 0"
    by (simp add: e)
next
  assume "jsGreaterZero (buyback (allocations a)) \<and>
    executeBuyback_try config env (pendingAction Buyback (buyback (allocations a)))
      = Inl error"
  then show "hd (actions (executeActions config env a)) =
        \<lparr> actionType = Buyback, amountSol = buyback (allocations a),
          actionSignature = None, actionStatus = Failed, actionError = Some error \<rparr>"
    by (simp add: executeActions_buyback_first executeBuyback_failed)
qed

theorem executeEpoch_exceptions_caught_witness:
  "\<not> circuitBreakerActive (executorState fundedExecutor) \<and>
   \<not> real_of_int
        (dateNowSeconds failedBalanceEnv - lastExecutionTime (executorState fundedExecutor))
      < minIntervalSeconds (executor liveConfig) \<and>
   getBalance failedBalanceEnv = Inl (Message ''rpc unavailable'') \<and>
   0 < minBalanceToOperateSol (executor liveConfig) \<and>
   fst (executeEpoch liveConfig failedBalanceEnv criticalHealthState fundedExecutor) = None \<and>
   consecutiveFailures
     (executorState
        (snd (executeEpoch liveConfig failedBalanceEnv criticalHealthState fundedExecutor)))
     = 3 \<and>
   \<not> real_of_int
        (dateNowSeconds rejectingSwapEnv - lastExecutionTime (executorState fundedExecutor))
      < minIntervalSeconds (executor liveConfig) \<and>
   minBalanceToOperateSol (executor liveConfig) \<le> checkBotBalance rejectingSwapEnv \<and>
   0.01 \<le> totalFeesCollected (feeTracker fundedExecutor) \<and>
   mode (executor liveConfig) = Live \<and>
   fst (executeEpoch liveConfig rejectingSwapEnv criticalHealthState fundedExecutor) =
     Some (executeActions liveConfig rejectingSwapEnv
             (allocationStrategy liveConfig (totalFeesCollected (feeTracker fundedExecutor))
                criticalHealthState (allocationConfig liveConfig))) \<and>
   consecutiveFailures
     (executorState
        (snd (executeEpoch liveConfig rejectingSwapEnv criticalHealthState fundedExecutor)))
     = 0 \<and>
   jsGreaterZero
     (buyback (allocations
        (AdaptiveAllocationStrategy_allocate 1 criticalHealthState defaultAllocationConfig))) \<and>
   hd (actions (executeActions liveConfig rejectingSwapEnv
        (AdaptiveAllocationStrategy_allocate 1 criticalHealthState defaultAllocationConfig))) =
     \<lparr> actionType = Buyback, amountSol = Num 0.85, actionSignature = None,
       actionStatus = Failed, actionError = Some (Message ''Raydium dryRun not yet implemented'') \<rparr>"
proof -
  let ?a = "AdaptiveAllocationStrategy_allocate 1 criticalHealthState defaultAllocationConfig"
  have cfg: "minIntervalSeconds (executor liveConfig) = 300"
    "minBalanceToOperateSol (executor liveConfig) = 0.5"
    "mode (executor liveConfig) = Live"
    by (simp_all add: liveConfig_def defaultConfig_def defaultExecutorConfig_def)
  have st: "\<not> circuitBreakerActive (executorState fundedExecutor)"
    "lastExecutionTime (executorState fundedExecutor) = 0"
    "consecutiveFailures (executorState fundedExecutor) = 2"
    "totalFeesCollected (feeTracker fundedExecutor) = 1"
    by (simp_all add: fundedExecutor_def initialExecutorState_def)
  have env: "dateNowSeconds failedBalanceEnv = 1700000000"
    "dateNowSeconds rejectingSwapEnv = 1700000000"
    "getBalance failedBalanceEnv = Inl (Message ''rpc unavailable'')"
    by (simp_all add: failedBalanceEnv_def rejectingSwapEnv_def)
  have b: "buyback (allocations ?a) = Num 0.85"
    by (simp add: AdaptiveAllocationStrategy_allocate_def criticalHealthState_def
        defaultAllocationConfig_def jsDiv_def Let_def)
  have g: "jsGreaterZero (buyback (allocations ?a))"
    by (simp add: b jsGreaterZero_def)
  have t: "executeBuyback_try liveConfig rejectingSwapEnv
      (pendingAction Buyback (buyback (allocations ?a))) = Inl (Message ''Raydium dryRun not yet implemented'')"
    by (simp add: executeBuyback_try_def rejectingSwapEnv_def)
  from executeEpoch_exceptions_caught
      [where config = liveConfig and env = failedBalanceEnv and ex = fundedExecutor
        and iceHealth = criticalHealthState and error = "Message ''rpc unavailable''"
        and a = ?a]
    executeEpoch_exceptions_caught
      [where config = liveConfig and env = rejectingSwapEnv and ex = fundedExecutor
        and iceHealth = criticalHealthState and error = "Message ''Raydium dryRun not yet implemented''" and a = ?a]
    cfg st env g t
  show ?thesis
    by (simp add: checkBotBalance_ok b)
qed

lemma executeEpoch_epochNumber:
  "epochNumber (executorState (snd (executeEpoch config env iceHealth ex)))
     = epochNumber (executorState ex) + 1"
  by (cases rule: executeEpoch_cases [of config env iceHealth ex])
    (simp_all add: incrementEpochNumber_fields incrementFailureCount_fields)

lemma applyCall_epochNumber:
  "epochNumber (executorState (applyCall config call ex))
     = epochNumber (executorState ex) + (if isEpoch call then 1 else 0)"
  by (cases call) (simp_all add: executeEpoch_epochNumber resetCircuitBreaker_def)

text \<open>
  C10. Every call of \<open>executeEpoch\<close> increments the epoch number by exactly 1,
  whatever its outcome: a silent abort, a counted failure or a settled epoch. So after a
  sequence of calls on an executor, the epoch number seen through \<open>getState\<close> has
  grown by the number of \<open>executeEpoch\<close> calls made, attempted epochs and not
  completed ones.
\<close>

theorem executeEpoch_counts_attempts:
  "epochNumber (getState (snd (executeEpoch config env iceHealth ex)))
     = epochNumber (getState ex) + 1 \<and>
   epochNumber (getState (runCalls config calls ex))
     = epochNumber (getState ex) + length (filter isEpoch calls)"
proof
  show "epochNumber (getState (snd (executeEpoch config env iceHealth ex)))
     = epochNumber (getState ex) + 1"
    by (simp add: getState_def executeEpoch_epochNumber)
  show "epochNumber (getState (runCalls config calls ex))
     = epochNumber (getState ex) + length (filter isEpoch calls)"
    unfolding getState_def
    by (induction calls arbitrary: ex) (simp_all add: applyCall_epochNumber)
qed

end
